theory Spec2Isabelle
  imports Main "HOL-Library.Sublist" "HOL-Library.Word"
begin

section \<open>Python values used by \<open>src/web/utils.py\<close>\<close>

text \<open>
  Exceptions are values: every operation that can raise returns \<open>py_error + 'a\<close>,
  \<open>Inl\<close> carrying the exception. Only the exception classes that the modelled code can
  meet are listed.
\<close>

datatype py_error = ValueError | TypeError | AttributeError | OverflowError | IndexError

definition and_then :: "py_error + 'a \<Rightarrow> ('a \<Rightarrow> py_error + 'b) \<Rightarrow> py_error + 'b" where
  "and_then m f = (case m of Inl e \<Rightarrow> Inl e | Inr x \<Rightarrow> f x)"

text \<open>
  \<open>with suppress(ValueError): return f(x)\<close>: a \<open>ValueError\<close> is swallowed and control
  goes on to the next statement (\<open>None\<close> here); any other exception propagates.
\<close>

definition suppress_ValueError :: "py_error + 'a \<Rightarrow> py_error + 'a option" where
  "suppress_ValueError m =
     (case m of Inr x \<Rightarrow> Inr (Some x) | Inl ValueError \<Rightarrow> Inr None | Inl e \<Rightarrow> Inl e)"

subsection \<open>Strings\<close>

text \<open>
  A Python \<open>str\<close> is modelled as a \<open>string\<close> whose characters are the code points
  below 256. \<open>str.lower\<close> on these code points changes exactly \<open>A\<close>..\<open>Z\<close> and
  \<open>0xC0\<close>..\<open>0xDE\<close> without \<open>0xD7\<close>, each by adding 32.
\<close>

definition py_lower_char :: "char \<Rightarrow> char" where
  "py_lower_char c =
     (let n = (of_char c :: nat)
      in if (65 \<le> n \<and> n \<le> 90) \<or> (192 \<le> n \<and> n \<le> 222 \<and> n \<noteq> 215)
         then char_of (n + 32) else c)"

definition lower :: "string \<Rightarrow> string" where
  "lower s = map py_lower_char s"

text \<open>\<open>sub in s\<close> on strings: \<open>sub\<close> occurs in \<open>s\<close> as a contiguous run.\<close>

fun py_in :: "string \<Rightarrow> string \<Rightarrow> bool" where
  "py_in sub [] = (sub = [])"
| "py_in sub (c # cs) = (prefix sub (c # cs) \<or> py_in sub cs)"

text \<open>
  \<open>s.partition(sep)\<close>: split at the leftmost occurrence of \<open>sep\<close>; when \<open>sep\<close> does
  not occur the result is \<open>(s, '', '')\<close>. The source passes the non-empty literals
  \<open>'max-age='\<close> and \<open>','\<close> only (Python rejects an empty separator).
\<close>

fun partition :: "string \<Rightarrow> string \<Rightarrow> string \<times> string \<times> string" where
  "partition sep [] = ([], [], [])"
| "partition sep (c # cs) =
     (if prefix sep (c # cs) then ([], sep, drop (length sep) (c # cs))
      else (case partition sep cs of (a, b, r) \<Rightarrow> (c # a, b, r)))"

text \<open>\<open>s.endswith(t)\<close>.\<close>

definition endswith :: "string \<Rightarrow> string \<Rightarrow> bool" where
  "endswith s t = suffix t s"

subsection \<open>\<open>int(s)\<close> and \<open>s.isdecimal()\<close>\<close>

text \<open>
  \<open>int(s)\<close> in base 10: surrounding whitespace is dropped (among the code points below
  256: tab, LF, VT, FF, CR, space, \<open>0x85\<close>, \<open>0xA0\<close>), then an optional sign, then
  decimal digits with single underscores allowed between two digits. Anything else is a
  \<open>ValueError\<close>, here \<open>None\<close>. The interpreter's limit on the number of digits
  (\<open>sys.int_max_str_digits\<close>, 4300 by default, 0 for no limit) is the first argument:
  a literal with more digits is a \<open>ValueError\<close> too.
\<close>

definition is_int_space :: "char \<Rightarrow> bool" where
  "is_int_space c = ((of_char c :: nat) \<in> {9, 10, 11, 12, 13, 32, 133, 160})"

definition is_decimal_digit :: "char \<Rightarrow> bool" where
  "is_decimal_digit c = (48 \<le> (of_char c :: nat) \<and> (of_char c :: nat) \<le> 57)"

definition digit_value :: "char \<Rightarrow> int" where
  "digit_value c = (of_char c :: int) - 48"

text \<open>
  The scan over the digits: \<open>sep\<close> says that no digit has been read since the start or
  since the last underscore, so that an underscore or the end of the text is refused
  there. The result is the value and the number of digits.
\<close>

fun scan_digits :: "bool \<Rightarrow> int \<Rightarrow> nat \<Rightarrow> string \<Rightarrow> (int \<times> nat) option" where
  "scan_digits sep acc cnt [] = (if sep then None else Some (acc, cnt))"
| "scan_digits sep acc cnt (c # cs) =
     (if is_decimal_digit c then scan_digits False (acc * 10 + digit_value c) (Suc cnt) cs
      else if c = CHR ''_'' \<and> \<not> sep then scan_digits True acc cnt cs
      else None)"

definition py_int :: "nat \<Rightarrow> string \<Rightarrow> int option" where
  "py_int max_str_digits s =
     (let t = dropWhile is_int_space s;
          (neg, u) = (case t of
                        c # r \<Rightarrow> if c = CHR ''-'' then (True, r)
                                 else if c = CHR ''+'' then (False, r) else (False, t)
                      | [] \<Rightarrow> (False, t));
          v = rev (dropWhile is_int_space (rev u))
      in case scan_digits True 0 0 v of
           None \<Rightarrow> None
         | Some (n, cnt) \<Rightarrow>
             if 0 < max_str_digits \<and> max_str_digits < cnt then None
             else Some (if neg then - n else n))"

text \<open>\<open>s.isdecimal()\<close>: non-empty and decimal digits only.\<close>

definition isdecimal :: "string \<Rightarrow> bool" where
  "isdecimal s = (s \<noteq> [] \<and> list_all is_decimal_digit s)"

subsection \<open>\<open>datetime\<close> and \<open>timedelta\<close>\<close>

text \<open>
  A \<open>datetime\<close> is its wall-clock reading, in microseconds since
  \<open>0001-01-01T00:00:00\<close>, and its UTC offset in microseconds: \<open>None\<close> for a naive
  value, \<open>Some off\<close> for an aware one. A \<open>datetime\<close> object is always truthy.
\<close>

record datetime =
  wall :: int
  utcoffset :: "int option"

text \<open>One past \<open>datetime.max\<close>: 3652059 days.\<close>

definition datetime_end :: int where
  "datetime_end = 3652059 * 86400 * 1000000"

text \<open>
  \<open>timedelta(seconds=n)\<close> for an integer \<open>n\<close>, in microseconds: an \<open>OverflowError\<close>
  when the number of whole days leaves \<open>\<plusminus>999999999\<close>.
\<close>

definition timedelta_seconds :: "int \<Rightarrow> py_error + int" where
  "timedelta_seconds n =
     (if - 999999999 \<le> n div 86400 \<and> n div 86400 \<le> 999999999 then Inr (n * 1000000)
      else Inl OverflowError)"

text \<open>\<open>d + delta\<close>: the wall clock moves, the zone stays; out of range is an error.\<close>

definition datetime_add :: "datetime \<Rightarrow> int \<Rightarrow> py_error + datetime" where
  "datetime_add d delta =
     (if 0 \<le> wall d + delta \<and> wall d + delta < datetime_end
      then Inr (d\<lparr>wall := wall d + delta\<rparr>) else Inl OverflowError)"

definition add_seconds :: "datetime \<Rightarrow> int \<Rightarrow> py_error + datetime" where
  "add_seconds d n = and_then (timedelta_seconds n) (datetime_add d)"

text \<open>
  \<open>a > b\<close>: two aware values compare by their UTC instants, two naive ones by their wall
  clocks, and a naive value against an aware one is a \<open>TypeError\<close>.
\<close>

definition datetime_gt :: "datetime \<Rightarrow> datetime \<Rightarrow> py_error + bool" where
  "datetime_gt a b =
     (case (utcoffset a, utcoffset b) of
        (None, None) \<Rightarrow> Inr (wall b < wall a)
      | (Some x, Some y) \<Rightarrow> Inr (wall b - y < wall a - x)
      | _ \<Rightarrow> Inl TypeError)"

subsection \<open>The standard library, as parameters\<close>

text \<open>
  The parsers of the standard library are not part of the file under study, so the model
  takes them as parameters: every theorem below holds for whatever they compute.
  Each returns its value or the exception it raises.
\<close>

datatype ip_addr = IPv4Address "32 word" | IPv6Address "128 word"

record pylib =
  parsedate_to_datetime :: "string \<Rightarrow> py_error + datetime"
  fromisoformat :: "string \<Rightarrow> py_error + datetime"
  int_max_str_digits :: nat
  ip_address :: "string \<Rightarrow> py_error + ip_addr"
  urlparse_hostname :: "string \<Rightarrow> py_error + string option"

section \<open>\<open>rfc_2822_8601_to_datetime\<close>\<close>

definition rfc_2822_8601_to_datetime ::
    "pylib \<Rightarrow> string option \<Rightarrow> py_error + datetime option" where
  "rfc_2822_8601_to_datetime lib time_str =
     (case time_str of
        None \<Rightarrow> Inr None
      | Some s \<Rightarrow>
          if s = [] then Inr None
          else and_then (suppress_ValueError (parsedate_to_datetime lib s))
                 (\<lambda>r. case r of
                         Some d \<Rightarrow> Inr (Some d)
                       | None \<Rightarrow> suppress_ValueError (fromisoformat lib s)))"

section \<open>\<open>WebResponse\<close>\<close>

text \<open>
  \<open>headers\<close> is a \<open>CIMultiDictProxy[str]\<close>: a list of name/value pairs whose \<open>get\<close>
  returns the value of the first pair whose name equals the key up to letter case.
\<close>

type_synonym headers = "(string \<times> string) list"

definition headers_get :: "headers \<Rightarrow> string \<Rightarrow> string option" where
  "headers_get hs k = map_of (map (\<lambda>(n, v). (lower n, v)) hs) (lower k)"

text \<open>
  The dataclass fields, and \<open>clock\<close>: what \<open>datetime.now(timezone.utc)\<close> reads when the
  cached property \<open>now\<close> is first asked for, in microseconds.
\<close>

record WebResponse =
  url :: string
  ori_url :: string
  content :: "string option"
  headers :: headers
  status :: int
  reason :: "string option"
  clock :: int

definition AGE_REMAINING_CLAMP_MIN :: int where
  "AGE_REMAINING_CLAMP_MIN = 0"

definition AGE_REMAINING_CLAMP_MAX :: int where
  "AGE_REMAINING_CLAMP_MAX = 21600"

definition etag :: "WebResponse \<Rightarrow> string option" where
  "etag wr = (case headers_get (headers wr) ''ETag'' of
                None \<Rightarrow> None
              | Some v \<Rightarrow> if v = [] then None else Some v)"

definition now :: "WebResponse \<Rightarrow> datetime" where
  "now wr = \<lparr>wall = clock wr, utcoffset = Some 0\<rparr>"

definition date :: "pylib \<Rightarrow> WebResponse \<Rightarrow> py_error + datetime" where
  "date lib wr =
     and_then (rfc_2822_8601_to_datetime lib (headers_get (headers wr) ''Date''))
       (\<lambda>r. case r of Some d \<Rightarrow> Inr d | None \<Rightarrow> Inr (now wr))"

definition last_modified :: "pylib \<Rightarrow> WebResponse \<Rightarrow> py_error + datetime" where
  "last_modified lib wr =
     and_then (rfc_2822_8601_to_datetime lib (headers_get (headers wr) ''Last-Modified''))
       (\<lambda>r. case r of Some d \<Rightarrow> Inr d | None \<Rightarrow> date lib wr)"

definition max_age :: "pylib \<Rightarrow> WebResponse \<Rightarrow> int option" where
  "max_age lib wr =
     (let cache_control =
            lower (case headers_get (headers wr) ''Cache-Control'' of
                     None \<Rightarrow> [] | Some v \<Rightarrow> v)
      in if cache_control = [] then None
         else if py_in ''no-cache'' cache_control \<or> py_in ''no-store'' cache_control
           then Some 0
         else (let max_age_str =
                     fst (partition '','' (snd (snd (partition ''max-age='' cache_control))))
               in if max_age_str \<noteq> [] then py_int (int_max_str_digits lib) max_age_str
                  else None))"

definition age :: "pylib \<Rightarrow> WebResponse \<Rightarrow> int option" where
  "age lib wr =
     (case headers_get (headers wr) ''Age'' of
        None \<Rightarrow> None
      | Some a \<Rightarrow> if a \<noteq> [] then py_int (int_max_str_digits lib) a else None)"

definition age_remaining :: "pylib \<Rightarrow> WebResponse \<Rightarrow> int option" where
  "age_remaining lib wr =
     (case max_age lib wr of
        None \<Rightarrow> None
      | Some m \<Rightarrow>
          (let age_remaining =
                 m - (case age lib wr of None \<Rightarrow> 0 | Some a \<Rightarrow> if a = 0 then 0 else a)
           in if age_remaining < AGE_REMAINING_CLAMP_MIN then Some AGE_REMAINING_CLAMP_MIN
              else if age_remaining > AGE_REMAINING_CLAMP_MAX then Some AGE_REMAINING_CLAMP_MAX
              else Some age_remaining))"

definition expires :: "pylib \<Rightarrow> WebResponse \<Rightarrow> py_error + datetime option" where
  "expires lib wr =
     (case age_remaining lib wr of
        None \<Rightarrow> rfc_2822_8601_to_datetime lib (headers_get (headers wr) ''Expires'')
      | Some r \<Rightarrow>
          if r \<le> 0 then Inr None
          else and_then (date lib wr)
                 (\<lambda>d. and_then (add_seconds d r) (\<lambda>e. Inr (Some e))))"

section \<open>\<open>WebFeed\<close>\<close>

text \<open>
  The three fields that \<open>rss_d.feed.get\<close> is asked for: \<open>None\<close> when the parsed
  feed does not have the field.
\<close>

record feed =
  generator :: "string option"
  updated :: "string option"
  ttl :: "string option"

text \<open>
  The dataclass fields, with the prefix \<open>wf_\<close> where \<open>WebResponse\<close> has a field of
  the same name. The field \<open>error\<close> holds a \<open>WebError\<close>, which
  \<open>calc_next_check_as_per_server_side_cache\<close> never reads; it is left out.
\<close>

record WebFeed =
  wf_url :: string
  wf_ori_url :: string
  wf_content :: "string option"
  wf_headers :: "headers option"
  wf_status :: int
  wf_reason :: "string option"
  rss_d :: "feed option"
  web_response :: "WebResponse option"

text \<open>Lines 252 to 255: defer the next check as per the Cloudflare cache.\<close>

definition defer_as_per_cloudflare ::
    "pylib \<Rightarrow> headers \<Rightarrow> WebResponse \<Rightarrow> py_error + datetime option" where
  "defer_as_per_cloudflare lib hs wr =
     (case headers_get hs ''cf-cache-status'' of
        None \<Rightarrow> Inr None
      | Some v \<Rightarrow>
          if v \<in> set [''HIT'', ''MISS'', ''EXPIRED'', ''REVALIDATED'']
          then and_then (expires lib wr)
                 (\<lambda>ex. case ex of
                          None \<Rightarrow> Inr None
                        | Some e \<Rightarrow>
                            and_then (datetime_gt e (now wr))
                              (\<lambda>b. Inr (if b then Some e else None)))
          else Inr None)"

text \<open>
  Lines 266 to 271: \<open>(int(ttl) * 60 if ttl.isdecimal() else wr.max_age) or -1\<close>.
  The \<open>or\<close> replaces \<open>None\<close> and \<open>0\<close> alike.
\<close>

definition ttl_in_second :: "pylib \<Rightarrow> feed \<Rightarrow> WebResponse \<Rightarrow> py_error + int" where
  "ttl_in_second lib fd wr =
     (let ttl_in_minute_str = (case ttl fd of None \<Rightarrow> [] | Some s \<Rightarrow> s)
      in and_then
           (if isdecimal ttl_in_minute_str
            then (case py_int (int_max_str_digits lib) ttl_in_minute_str of
                    None \<Rightarrow> Inl ValueError
                  | Some n \<Rightarrow> Inr (Some (n * 60)))
            else Inr (max_age lib wr))
           (\<lambda>v. Inr (case v of None \<Rightarrow> - 1 | Some n \<Rightarrow> if n = 0 then - 1 else n)))"

text \<open>Lines 260 to 275: defer the next check as per the RSSHub TTL.\<close>

definition defer_as_per_rsshub ::
    "pylib \<Rightarrow> feed \<Rightarrow> WebResponse \<Rightarrow> py_error + datetime option" where
  "defer_as_per_rsshub lib fd wr =
     (if generator fd = Some ''RSSHub''
         \<and> (case updated fd of None \<Rightarrow> False | Some updated_str \<Rightarrow> updated_str \<noteq> [])
      then and_then (ttl_in_second lib fd wr)
             (\<lambda>t. if 300 < t
                   then and_then (rfc_2822_8601_to_datetime lib (updated fd))
                          (\<lambda>u. case u of
                                  None \<Rightarrow> Inr None
                                | Some d \<Rightarrow>
                                    and_then (add_seconds d t)
                                      (\<lambda>next_check_time.
                                         and_then (datetime_gt next_check_time (now wr))
                                           (\<lambda>b. Inr (if b then Some next_check_time
                                                      else None))))
                   else Inr None)
      else Inr None)"

text \<open>
  \<open>self.headers.get\<close> and \<open>rss_d.feed\<close> are attribute accesses: on \<open>None\<close> they raise
  \<open>AttributeError\<close>.
\<close>

definition calc_next_check_as_per_server_side_cache ::
    "pylib \<Rightarrow> WebFeed \<Rightarrow> py_error + datetime option" where
  "calc_next_check_as_per_server_side_cache lib self =
     (case web_response self of
        None \<Rightarrow> Inr None
      | Some wr \<Rightarrow>
          (case wf_headers self of
             None \<Rightarrow> Inl AttributeError
           | Some hs \<Rightarrow>
               and_then (defer_as_per_cloudflare lib hs wr)
                 (\<lambda>r. case r of
                         Some e \<Rightarrow> Inr (Some e)
                       | None \<Rightarrow>
                           (case rss_d self of
                              None \<Rightarrow> Inl AttributeError
                            | Some fd \<Rightarrow> defer_as_per_rsshub lib fd wr))))"

section \<open>\<open>proxy_filter\<close>\<close>

text \<open>
  An \<open>ip_network\<close> is its network address and its prefix length. \<open>a in net\<close> is false when
  the versions differ and \<open>a & netmask == network_address\<close> otherwise.
\<close>

datatype ip_net = IPv4Network "32 word" nat | IPv6Network "128 word" nat

definition PRIVATE_NETWORKS :: "ip_net list" where
  "PRIVATE_NETWORKS =
     [IPv4Network 0x7F000000 8, IPv6Network 1 128,
      IPv4Network 0xA9FE0000 16, IPv6Network 0xFE800000000000000000000000000000 10,
      IPv4Network 0x0A000000 8,
      IPv4Network 0xAC100000 12,
      IPv4Network 0xC0A80000 16,
      IPv6Network 0xFC000000000000000000000000000000 7]"

fun in_network :: "ip_addr \<Rightarrow> ip_net \<Rightarrow> bool" where
  "in_network (IPv4Address a) (IPv4Network n p) = (and a (not (mask (32 - p))) = n)"
| "in_network (IPv6Address a) (IPv6Network n p) = (and a (not (mask (128 - p))) = n)"
| "in_network _ _ = False"

definition is_private :: "ip_addr \<Rightarrow> bool" where
  "is_private ip_a = list_ex (in_network ip_a) PRIVATE_NETWORKS"

record env =
  PROXY_BYPASS_PRIVATE :: bool
  PROXY_BYPASS_DOMAINS :: "string list"

text \<open>\<open>s[-k]\<close> for \<open>k \<ge> 1\<close>: an \<open>IndexError\<close> when \<open>s\<close> has fewer than \<open>k\<close> characters.\<close>

definition char_from_end :: "string \<Rightarrow> nat \<Rightarrow> py_error + char" where
  "char_from_end s k =
     (if 0 < k \<and> k \<le> length s then Inr (s ! (length s - k)) else Inl IndexError)"

text \<open>The body of the generator at line 292, for one \<open>domain\<close>.\<close>

definition domain_matches :: "string \<Rightarrow> string \<Rightarrow> py_error + bool" where
  "domain_matches hostname domain =
     (if endswith hostname domain
      then (if hostname = domain then Inr True
            else and_then (char_from_end hostname (length domain + 1))
                   (\<lambda>c. Inr (c = CHR ''.'')))
      else Inr False)"

text \<open>\<open>any\<close> over the generator: it stops at the first true element.\<close>

fun any_domain_matches :: "string \<Rightarrow> string list \<Rightarrow> py_error + bool" where
  "any_domain_matches hostname [] = Inr False"
| "any_domain_matches hostname (domain # domains) =
     and_then (domain_matches hostname domain)
       (\<lambda>b. if b then Inr True else any_domain_matches hostname domains)"

text \<open>
  Lines 285 to 290. \<open>ip_address(None)\<close> is a \<open>ValueError\<close>, which the \<open>suppress\<close>
  swallows like that of a host name that is no address.
\<close>

definition private_check :: "pylib \<Rightarrow> string option \<Rightarrow> py_error + bool" where
  "private_check lib hostname =
     and_then
       (suppress_ValueError
          (case hostname of None \<Rightarrow> Inl ValueError | Some h \<Rightarrow> ip_address lib h))
       (\<lambda>r. case r of None \<Rightarrow> Inr False | Some ip_a \<Rightarrow> Inr (is_private ip_a))"

text \<open>
  \<open>proxy_filter\<close> answers \<open>True\<close> for "use the proxy" and \<open>False\<close> for "bypass it".
\<close>

definition proxy_filter :: "pylib \<Rightarrow> env \<Rightarrow> string \<Rightarrow> bool \<Rightarrow> py_error + bool" where
  "proxy_filter lib ev the_url parse =
     (if \<not> (PROXY_BYPASS_PRIVATE ev \<or> PROXY_BYPASS_DOMAINS ev \<noteq> []) then Inr True
      else and_then (if parse then urlparse_hostname lib the_url else Inr (Some the_url))
        (\<lambda>hostname.
           and_then (if PROXY_BYPASS_PRIVATE ev then private_check lib hostname
                     else Inr False)
             (\<lambda>is_private_ip.
                if is_private_ip then Inr False
                else if PROXY_BYPASS_DOMAINS ev \<noteq> []
                  then and_then
                         (case hostname of
                            None \<Rightarrow> Inl AttributeError
                          | Some h \<Rightarrow> any_domain_matches h (PROXY_BYPASS_DOMAINS ev))
                         (\<lambda>is_bypassed. if is_bypassed then Inr False else Inr True)
                  else Inr True)))"

section \<open>Words of the specification, as definitions\<close>

text \<open>
  The effective TTL of the feed-TTL rule as the specification words it: the feed's
  \<open>ttl\<close> times 60 when that field is a decimal integer string, otherwise the response's
  \<open>max_age\<close>, and \<open>-1\<close> when neither yields a value.
\<close>

definition spec_effective_ttl :: "pylib \<Rightarrow> feed \<Rightarrow> WebResponse \<Rightarrow> int" where
  "spec_effective_ttl lib fd wr =
     (case (if isdecimal (case ttl fd of None \<Rightarrow> [] | Some s \<Rightarrow> s)
            then map_option (\<lambda>n. n * 60)
                   (py_int (int_max_str_digits lib) (case ttl fd of None \<Rightarrow> [] | Some s \<Rightarrow> s))
            else max_age lib wr) of
        None \<Rightarrow> - 1
      | Some t \<Rightarrow> t)"

text \<open>
  The directives of a \<open>Cache-Control\<close> value are its comma-separated items; an item is
  a max-age directive when, blanks before it dropped and letter case ignored, it starts
  with \<open>max-age=\<close>.
\<close>

fun split_commas :: "string \<Rightarrow> string list" where
  "split_commas [] = [[]]"
| "split_commas (c # cs) =
     (if c = CHR '','' then [] # split_commas cs
      else (case split_commas cs of d # ds \<Rightarrow> (c # d) # ds | [] \<Rightarrow> [[c]]))"

definition spec_has_max_age_directive :: "string \<Rightarrow> bool" where
  "spec_has_max_age_directive v =
     list_ex (\<lambda>d. prefix ''max-age='' (dropWhile (\<lambda>c. c = CHR '' '') (lower d)))
       (split_commas v)"

text \<open>A header lookup that tells letter case apart, as the specification words it.\<close>

definition spec_case_sensitive_get :: "headers \<Rightarrow> string \<Rightarrow> string option" where
  "spec_case_sensitive_get hs k = map_of hs k"

section \<open>Example values\<close>

text \<open>
  What the standard library computes at the strings the examples use:
  \<open>parsedate_to_datetime('Wed, 21 Oct 2015 07:28:00 GMT')\<close> is that instant, aware, in
  UTC; \<open>fromisoformat('2030-01-01T00:00:00')\<close> is a naive \<open>datetime\<close>, and
  \<open>parsedate_to_datetime\<close> rejects that string with a \<open>ValueError\<close>, while on
  \<open>'1 Jan 99999999999999999999 00:00:00 GMT'\<close> it raises an \<open>OverflowError\<close> (the
  year does not fit the \<open>datetime\<close> constructor's argument);
  \<open>ip_address\<close> reads the two dotted quads and rejects a host name with a
  \<open>ValueError\<close>; \<open>urlparse('foo').hostname\<close> is \<open>None\<close>. The examples ask for no
  other string that the library would accept.
\<close>

definition example_lib :: pylib where
  "example_lib =
     \<lparr>parsedate_to_datetime =
        (\<lambda>s. if s = ''Wed, 21 Oct 2015 07:28:00 GMT''
              then Inr \<lparr>wall = 63581009280000000, utcoffset = Some 0\<rparr>
              else if s = ''1 Jan 99999999999999999999 00:00:00 GMT''
              then Inl OverflowError
              else Inl ValueError),
      fromisoformat =
        (\<lambda>s. if s = ''2030-01-01T00:00:00''
              then Inr \<lparr>wall = 64029052800000000, utcoffset = None\<rparr>
              else Inl ValueError),
      int_max_str_digits = 4300,
      ip_address =
        (\<lambda>s. if s = ''127.0.0.1'' then Inr (IPv4Address 0x7F000001)
              else if s = ''8.8.8.8'' then Inr (IPv4Address 0x08080808)
              else Inl ValueError),
      urlparse_hostname =
        (\<lambda>s. if s = ''http://127.0.0.1/feed'' then Inr (Some ''127.0.0.1'')
              else if s = ''http://sub.example.com/feed'' then Inr (Some ''sub.example.com'')
              else if s = ''foo'' then Inr None
              else Inl ValueError)\<rparr>"

text \<open>A response with the given headers, observed at the given clock reading.\<close>

definition example_response :: "headers \<Rightarrow> int \<Rightarrow> WebResponse" where
  "example_response hs c =
     \<lparr>url = ''https://example.com/feed'', ori_url = ''https://example.com/feed'',
      content = None, headers = hs, status = 200, reason = Some ''OK'', clock = c\<rparr>"

text \<open>A fetched feed: the headers, the parsed feed fields and the response.\<close>

definition example_feed :: "headers option \<Rightarrow> feed option \<Rightarrow> WebResponse \<Rightarrow> WebFeed" where
  "example_feed hs fd wr =
     \<lparr>wf_url = ''https://example.com/feed'', wf_ori_url = ''https://example.com/feed'',
      wf_content = None, wf_headers = hs, wf_status = 200, wf_reason = Some ''OK'',
      rss_d = fd, web_response = Some wr\<rparr>"

text \<open>2015-10-21T07:18:00 UTC, ten minutes before the date the example parser reads.\<close>

definition example_clock :: int where
  "example_clock = 63581008680000000"

section \<open>Facts about the string operations\<close>

lemma py_in_sublist: "py_in sub s = sublist sub s"
  by (induction s) (auto simp: sublist_Cons_right)

lemma sublist_map_iff:
  "sublist x (map f v) \<longleftrightarrow> (\<exists>t. sublist t v \<and> map f t = x)"
proof
  assume "sublist x (map f v)"
  then obtain ps ss where "map f v = ps @ x @ ss"
    by (auto simp: sublist_def)
  then obtain a r where a: "v = a @ r" "map f r = x @ ss"
    by (metis map_eq_append_conv)
  then obtain b c where "r = b @ c" "map f b = x"
    by (metis map_eq_append_conv)
  with a have "v = a @ b @ c" "map f b = x"
    by simp_all
  then show "\<exists>t. sublist t v \<and> map f t = x"
    unfolding sublist_def by blast
next
  assume "\<exists>t. sublist t v \<and> map f t = x"
  then show "sublist x (map f v)"
    using map_mono_sublist by blast
qed

lemma py_in_lower:
  "py_in x (lower v) \<longleftrightarrow> (\<exists>t. sublist t v \<and> lower t = x)"
  by (simp add: py_in_sublist lower_def sublist_map_iff)

lemma fst_partition_char: "fst (partition [c] s) = takeWhile (\<lambda>x. x \<noteq> c) s"
  by (induction s) (auto split: prod.splits)

lemma partition_absent: "\<not> sublist sep s \<Longrightarrow> partition sep s = (s, [], [])"
  by (induction s) (auto simp: sublist_Cons_right)

lemma partition_first:
  "\<not> sublist sep (pre @ butlast sep) \<Longrightarrow> partition sep (pre @ sep @ post) = (pre, sep, post)"
proof (induction pre)
  case Nil
  show ?case
  proof (cases "sep @ post")
    case Nil
    then show ?thesis by simp
  next
    case (Cons a list)
    then have "partition sep (sep @ post) = ([], sep, drop (length sep) (sep @ post))"
      by (metis partition.simps(2) prefixI)
    then show ?thesis by simp
  qed
next
  case (Cons p ps)
  have ne: "sep \<noteq> []"
    using Cons.prems by auto
  have "\<not> prefix sep (p # ps @ sep @ post)"
  proof
    assume pf: "prefix sep (p # ps @ sep @ post)"
    have "p # ps @ sep @ post = ((p # ps) @ butlast sep) @ (last sep # post)"
      using ne by simp
    moreover have "length sep \<le> length ((p # ps) @ butlast sep)"
      by simp
    ultimately have "prefix sep ((p # ps) @ butlast sep)"
      using pf by (metis prefix_length_prefix prefixI)
    then show False
      using Cons.prems by (auto simp: sublist_Cons_right)
  qed
  moreover have "\<not> sublist sep (ps @ butlast sep)"
    using Cons.prems by (auto simp: sublist_Cons_right)
  ultimately show ?case
    using Cons.IH by simp
qed

lemma takeWhile_until_comma:
  "c \<notin> set txt \<Longrightarrow> rest = [] \<or> hd rest = c \<Longrightarrow> takeWhile (\<lambda>x. x \<noteq> c) (txt @ rest) = txt"
  by (cases rest) (auto simp: takeWhile_tail)

lemma py_int_empty: "py_int k [] = None"
  by (simp add: py_int_def)

section \<open>\<open>max_age\<close>\<close>

lemma lower_Nil_iff: "lower v = [] \<longleftrightarrow> v = []"
  by (simp add: lower_def)

lemma max_age_absent:
  "headers_get (headers wr) ''Cache-Control'' = None
     \<or> headers_get (headers wr) ''Cache-Control'' = Some [] \<Longrightarrow> max_age lib wr = None"
  by (auto simp: max_age_def lower_def)

lemma max_age_no_cache:
  assumes "headers_get (headers wr) ''Cache-Control'' = Some v"
    and "sublist t v" and "lower t = ''no-cache'' \<or> lower t = ''no-store''"
  shows "max_age lib wr = Some 0"
proof -
  have "py_in ''no-cache'' (lower v) \<or> py_in ''no-store'' (lower v)"
    using assms(2,3) py_in_lower by blast
  moreover have "lower v \<noteq> []"
    using calculation by auto
  ultimately show ?thesis
    using assms(1) by (simp add: max_age_def)
qed

lemma max_age_directive:
  assumes "headers_get (headers wr) ''Cache-Control'' = Some v"
    and "\<not> py_in ''no-cache'' (lower v)" and "\<not> py_in ''no-store'' (lower v)"
    and "lower v = pre @ ''max-age='' @ txt @ rest"
    and "\<not> sublist ''max-age='' (pre @ ''max-age'')"
    and "CHR '','' \<notin> set txt" and "rest = [] \<or> hd rest = CHR '',''"
  shows "max_age lib wr = (if txt = [] then None else py_int (int_max_str_digits lib) txt)"
proof -
  have ne: "lower v \<noteq> []"
    using assms(4) by simp
  have "partition ''max-age='' (lower v) = (pre, ''max-age='', txt @ rest)"
    using partition_first [of "''max-age=''" pre "txt @ rest"] assms(4,5) by simp
  moreover have "fst (partition '','' (txt @ rest)) = txt"
    using assms(6,7) by (simp add: fst_partition_char takeWhile_until_comma)
  ultimately show ?thesis
    using assms(1,2,3) ne by (simp add: max_age_def)
qed

lemma max_age_no_directive:
  assumes "headers_get (headers wr) ''Cache-Control'' = Some v"
    and "\<not> py_in ''no-cache'' (lower v)" and "\<not> py_in ''no-store'' (lower v)"
    and "\<not> sublist ''max-age='' (lower v)"
  shows "max_age lib wr = None"
proof -
  have "partition ''max-age='' (lower v) = (lower v, [], [])"
    using assms(4) by (rule partition_absent)
  then show ?thesis
    using assms(1,2,3) by (simp add: max_age_def Let_def)
qed


lemma headers_example_response: "headers (example_response hs c) = hs"
  by (simp add: example_response_def)

lemma py_int_600:
  "py_int k ''600'' = (if 0 < k \<and> k < 3 then None else Some 600)"
proof -
  show ?thesis
    by (simp add: py_int_def Let_def is_int_space_def is_decimal_digit_def digit_value_def)
qed


text \<open>
  Claim C3. \<open>max_age\<close> is absent when the \<open>Cache-Control\<close> header is absent or
  empty; it is 0 when the value contains \<open>no-cache\<close> or \<open>no-store\<close> in any letter
  case; otherwise, with the value in lower case, it is \<open>int\<close> of the text between the
  first \<open>max-age=\<close> and the next comma (absent when that text is empty or is no
  integer), and absent when \<open>max-age=\<close> does not occur.
\<close>

theorem max_age_cache_control:
  "(headers_get (headers wr) ''Cache-Control'' = None
      \<or> headers_get (headers wr) ''Cache-Control'' = Some [] \<longrightarrow> max_age lib wr = None)
   \<and> (\<forall>v t. headers_get (headers wr) ''Cache-Control'' = Some v \<and> sublist t v
          \<and> (lower t = ''no-cache'' \<or> lower t = ''no-store'') \<longrightarrow> max_age lib wr = Some 0)
   \<and> (\<forall>v pre txt rest.
          headers_get (headers wr) ''Cache-Control'' = Some v
          \<and> \<not> (\<exists>t. sublist t v \<and> (lower t = ''no-cache'' \<or> lower t = ''no-store''))
          \<and> lower v = pre @ ''max-age='' @ txt @ rest
          \<and> \<not> sublist ''max-age='' (pre @ ''max-age'')
          \<and> CHR '','' \<notin> set txt \<and> (rest = [] \<or> hd rest = CHR '','')
          \<longrightarrow> max_age lib wr = (if txt = [] then None else py_int (int_max_str_digits lib) txt))
   \<and> (\<forall>v. headers_get (headers wr) ''Cache-Control'' = Some v
          \<and> \<not> (\<exists>t. sublist t v \<and> (lower t = ''no-cache'' \<or> lower t = ''no-store''))
          \<and> \<not> sublist ''max-age='' (lower v) \<longrightarrow> max_age lib wr = None)"
proof (intro conjI allI impI)
  assume "headers_get (headers wr) ''Cache-Control'' = None
      \<or> headers_get (headers wr) ''Cache-Control'' = Some []"
  then show "max_age lib wr = None"
    by (rule max_age_absent)
next
  fix v t
  assume "headers_get (headers wr) ''Cache-Control'' = Some v \<and> sublist t v
          \<and> (lower t = ''no-cache'' \<or> lower t = ''no-store'')"
  then show "max_age lib wr = Some 0"
    using max_age_no_cache [of wr v t lib] by simp
next
  fix v pre tx rest
  assume a: "headers_get (headers wr) ''Cache-Control'' = Some v
          \<and> \<not> (\<exists>t. sublist t v \<and> (lower t = ''no-cache'' \<or> lower t = ''no-store''))
          \<and> lower v = pre @ ''max-age='' @ tx @ rest
          \<and> \<not> sublist ''max-age='' (pre @ ''max-age'')
          \<and> CHR '','' \<notin> set tx \<and> (rest = [] \<or> hd rest = CHR '','')"
  then have "\<not> py_in ''no-cache'' (lower v)" "\<not> py_in ''no-store'' (lower v)"
    unfolding py_in_lower by blast+
  with a show "max_age lib wr = (if tx = [] then None else py_int (int_max_str_digits lib) tx)"
    using max_age_directive [of wr v pre tx rest lib] by simp
next
  fix v
  assume a: "headers_get (headers wr) ''Cache-Control'' = Some v
          \<and> \<not> (\<exists>t. sublist t v \<and> (lower t = ''no-cache'' \<or> lower t = ''no-store''))
          \<and> \<not> sublist ''max-age='' (lower v)"
  then have "\<not> py_in ''no-cache'' (lower v)" "\<not> py_in ''no-store'' (lower v)"
    unfolding py_in_lower by blast+
  with a show "max_age lib wr = None"
    using max_age_no_directive [of wr v lib] by simp
qed

theorem max_age_cache_control_witness:
  "max_age example_lib (example_response [] 0) = None
   \<and> max_age example_lib (example_response [(''Cache-Control'', ''No-Cache'')] 0) = Some 0
   \<and> max_age example_lib
        (example_response [(''Cache-Control'', ''public, Max-Age=120, immutable'')] 0) = Some 120
   \<and> max_age example_lib (example_response [(''Cache-Control'', ''max-age=abc'')] 0) = None
   \<and> max_age example_lib (example_response [(''Cache-Control'', ''public'')] 0) = None"
proof -
  let ?w1 = "example_response [] 0"
  let ?w2 = "example_response [(''Cache-Control'', ''No-Cache'')] 0"
  let ?w3 = "example_response [(''Cache-Control'', ''public, Max-Age=120, immutable'')] 0"
  let ?w4 = "example_response [(''Cache-Control'', ''max-age=abc'')] 0"
  let ?w5 = "example_response [(''Cache-Control'', ''public'')] 0"
  have g1: "headers_get (headers ?w1) ''Cache-Control'' = None"
    by code_simp
  have p1: "max_age example_lib ?w1 = None"
    by (rule max_age_cache_control [of ?w1 example_lib, THEN conjunct1, rule_format])
       (use g1 in simp)
  have g2: "headers_get (headers ?w2) ''Cache-Control'' = Some ''No-Cache''"
    by code_simp
  have l2: "lower ''No-Cache'' = ''no-cache''"
    by code_simp
  have p2: "max_age example_lib ?w2 = Some 0"
    by (rule max_age_cache_control [of ?w2 example_lib, THEN conjunct2, THEN conjunct1,
          rule_format, of "''No-Cache''" "''No-Cache''"])
       (use g2 l2 in simp)
  have g3: "headers_get (headers ?w3) ''Cache-Control'' = Some ''public, Max-Age=120, immutable''"
    by code_simp
  have n3: "\<not> py_in ''no-cache'' (lower ''public, Max-Age=120, immutable'')"
           "\<not> py_in ''no-store'' (lower ''public, Max-Age=120, immutable'')"
    by code_simp+
  have l3: "lower ''public, Max-Age=120, immutable''
              = ''public, '' @ ''max-age='' @ ''120'' @ '', immutable''"
    by code_simp
  have f3: "\<not> sublist ''max-age='' (''public, '' @ ''max-age'')"
    by code_simp
  have c3: "CHR '','' \<notin> set ''120''" "'', immutable'' = [] \<or> hd '', immutable'' = CHR '',''"
    by simp_all
  have i3: "py_int (int_max_str_digits example_lib) ''120'' = Some 120"
    by code_simp
  have e3: "\<not> (\<exists>t. sublist t ''public, Max-Age=120, immutable''
                  \<and> (lower t = ''no-cache'' \<or> lower t = ''no-store''))"
    using n3 unfolding py_in_lower by blast
  have "max_age example_lib ?w3
          = (if ''120'' = [] then None else py_int (int_max_str_digits example_lib) ''120'')"
    by (rule max_age_cache_control [of ?w3 example_lib, THEN conjunct2, THEN conjunct2,
          THEN conjunct1, rule_format, of _ "''public, ''" "''120''" "'', immutable''"])
       (use g3 e3 l3 f3 c3 in blast)
  then have p3: "max_age example_lib ?w3 = Some 120"
    using i3 by simp
  have g4: "headers_get (headers ?w4) ''Cache-Control'' = Some ''max-age=abc''"
    by code_simp
  have n4: "\<not> py_in ''no-cache'' (lower ''max-age=abc'')"
           "\<not> py_in ''no-store'' (lower ''max-age=abc'')"
    by code_simp+
  have l4: "lower ''max-age=abc'' = [] @ ''max-age='' @ ''abc'' @ []"
    by code_simp
  have f4: "\<not> sublist ''max-age='' ([] @ ''max-age'')"
    by code_simp
  have c4: "CHR '','' \<notin> set ''abc''" "([]::string) = [] \<or> hd [] = CHR '',''"
    by simp_all
  have i4: "py_int (int_max_str_digits example_lib) ''abc'' = None"
    by code_simp
  have e4: "\<not> (\<exists>t. sublist t ''max-age=abc''
                  \<and> (lower t = ''no-cache'' \<or> lower t = ''no-store''))"
    using n4 unfolding py_in_lower by blast
  have "max_age example_lib ?w4
          = (if ''abc'' = [] then None else py_int (int_max_str_digits example_lib) ''abc'')"
    by (rule max_age_cache_control [of ?w4 example_lib, THEN conjunct2, THEN conjunct2,
          THEN conjunct1, rule_format, of _ "[]" "''abc''" "[]"])
       (use g4 e4 l4 f4 c4 in blast)
  then have p4: "max_age example_lib ?w4 = None"
    using i4 by simp
  have g5: "headers_get (headers ?w5) ''Cache-Control'' = Some ''public''"
    by code_simp
  have n5: "\<not> py_in ''no-cache'' (lower ''public'')" "\<not> py_in ''no-store'' (lower ''public'')"
    "\<not> sublist ''max-age='' (lower ''public'')"
    by code_simp+
  have e5: "\<not> (\<exists>t. sublist t ''public''
                  \<and> (lower t = ''no-cache'' \<or> lower t = ''no-store''))"
    using n5(1,2) unfolding py_in_lower by blast
  have p5: "max_age example_lib ?w5 = None"
    by (rule max_age_cache_control [of ?w5 example_lib, THEN conjunct2, THEN conjunct2,
          THEN conjunct2, rule_format, of "''public''"])
       (use g5 e5 n5(3) in blast)
  from p1 p2 p3 p4 p5 show ?thesis
    by blast
qed

text \<open>
  Claim C10, as stated: \<open>Cache-Control: s-maxage=600\<close> would yield \<open>max_age = 600\<close>.
  It does not: the text \<open>max-age=\<close>, with its hyphen, does not occur in
  \<open>s-maxage=600\<close>, and \<open>max_age\<close> is absent.
\<close>

theorem max_age_s_maxage_counterexample:
  "max_age example_lib (example_response [(''Cache-Control'', ''s-maxage=600'')] 0) = None
   \<and> max_age example_lib (example_response [(''Cache-Control'', ''s-maxage=600'')] 0) \<noteq> Some 600"
proof -
  have "max_age example_lib (example_response [(''Cache-Control'', ''s-maxage=600'')] 0) = None"
    by code_simp
  then show ?thesis
    by simp
qed


text \<open>
  Claim C10, amended. The search for \<open>max-age=\<close> is a substring search, so a value
  with no max-age directive of its own can still define \<open>max_age\<close>:
  \<open>x-max-age=600\<close> yields 600 (unless the interpreter's digit limit is below three
  digits), while \<open>s-maxage=600\<close> does not contain \<open>max-age=\<close> and yields absent.
\<close>

theorem max_age_by_substring_search:
  "\<not> spec_has_max_age_directive ''x-max-age=600''
   \<and> max_age lib (example_response [(''Cache-Control'', ''x-max-age=600'')] c)
       = (if 0 < int_max_str_digits lib \<and> int_max_str_digits lib < 3 then None else Some 600)
   \<and> \<not> sublist ''max-age='' (lower ''s-maxage=600'')
   \<and> max_age lib (example_response [(''Cache-Control'', ''s-maxage=600'')] c) = None"
proof -
  let ?x = "example_response [(''Cache-Control'', ''x-max-age=600'')] c"
  let ?s = "example_response [(''Cache-Control'', ''s-maxage=600'')] c"
  have d: "\<not> spec_has_max_age_directive ''x-max-age=600''"
    by code_simp
  have gx: "headers_get (headers ?x) ''Cache-Control'' = Some ''x-max-age=600''"
    unfolding headers_example_response by code_simp
  have nx: "\<not> py_in ''no-cache'' (lower ''x-max-age=600'')"
           "\<not> py_in ''no-store'' (lower ''x-max-age=600'')"
    by code_simp+
  have lx: "lower ''x-max-age=600'' = ''x-'' @ ''max-age='' @ ''600'' @ []"
    by code_simp
  have fx: "\<not> sublist ''max-age='' (''x-'' @ ''max-age'')"
    by code_simp
  have "max_age lib ?x = (if ''600'' = [] then None else py_int (int_max_str_digits lib) ''600'')"
    using max_age_directive [of ?x "''x-max-age=600''" "''x-''" "''600''" "[]" lib] gx nx lx fx
    by simp
  then have px: "max_age lib ?x
       = (if 0 < int_max_str_digits lib \<and> int_max_str_digits lib < 3 then None else Some 600)"
    by (simp add: py_int_600)
  have gs: "headers_get (headers ?s) ''Cache-Control'' = Some ''s-maxage=600''"
    unfolding headers_example_response by code_simp
  have ns: "\<not> py_in ''no-cache'' (lower ''s-maxage=600'')"
           "\<not> py_in ''no-store'' (lower ''s-maxage=600'')"
    by code_simp+
  have fs: "\<not> sublist ''max-age='' (lower ''s-maxage=600'')"
    by code_simp
  have ps: "max_age lib ?s = None"
    using max_age_no_directive [of ?s "''s-maxage=600''" lib] gs ns fs
    by simp
  from d px fs ps show ?thesis
    by blast
qed

section \<open>The remaining lifetime\<close>

text \<open>
  Claim C4. \<open>age_remaining\<close> is absent exactly when \<open>max_age\<close> is absent; otherwise it is
  \<open>max_age\<close> minus \<open>age\<close> (0 when \<open>age\<close> is absent), clamped to the closed interval from
  0 to 21600; so a defined \<open>age_remaining\<close> is never negative and never above 21600.
\<close>

theorem age_remaining_clamped:
  "(age_remaining lib wr = None \<longleftrightarrow> max_age lib wr = None)
   \<and> (\<forall>m. max_age lib wr = Some m \<longrightarrow>
          age_remaining lib wr =
            Some (max 0 (min 21600 (m - (case age lib wr of None \<Rightarrow> 0 | Some a \<Rightarrow> a)))))
   \<and> (\<forall>r. age_remaining lib wr = Some r \<longrightarrow> 0 \<le> r \<and> r \<le> 21600)"
  by (auto simp: age_remaining_def AGE_REMAINING_CLAMP_MIN_def AGE_REMAINING_CLAMP_MAX_def
        Let_def split: option.splits if_splits)

theorem age_remaining_clamped_witness:
  "max_age example_lib
     (example_response [(''Cache-Control'', ''max-age=100000''), (''Age'', ''5'')] 0)
     = Some 100000
   \<and> age_remaining example_lib
     (example_response [(''Cache-Control'', ''max-age=100000''), (''Age'', ''5'')] 0)
     = Some 21600
   \<and> (0::int) \<le> 21600"
proof -
  let ?wr = "example_response [(''Cache-Control'', ''max-age=100000''), (''Age'', ''5'')] 0"
  have m: "max_age example_lib ?wr = Some 100000"
    by code_simp
  have a: "age example_lib ?wr = Some 5"
    by code_simp
  from age_remaining_clamped [of example_lib ?wr] m
  have r: "age_remaining example_lib ?wr = Some (max 0 (min 21600 (100000 - 5)))"
    by (simp add: a)
  from age_remaining_clamped [of example_lib ?wr] r m show ?thesis
    by simp
qed

section \<open>Exceptions that pass through\<close>

lemma and_then_Inr [simp]: "and_then (Inr x) f = f x"
  by (simp add: and_then_def)

lemma and_then_Inl [simp]: "and_then (Inl e) f = Inl e"
  by (simp add: and_then_def)

lemma suppress_ValueError_Inr [simp]: "suppress_ValueError (Inr x) = Inr (Some x)"
  by (simp add: suppress_ValueError_def)

lemma suppress_ValueError_Inl [simp]:
  "suppress_ValueError (Inl e) = (if e = ValueError then Inr None else Inl e)"
  by (cases e) (simp_all add: suppress_ValueError_def)

section \<open>The date parser\<close>

lemma rfc_None: "rfc_2822_8601_to_datetime lib None = Inr None"
  by (simp add: rfc_2822_8601_to_datetime_def)

lemma rfc_empty: "rfc_2822_8601_to_datetime lib (Some []) = Inr None"
  by (simp add: rfc_2822_8601_to_datetime_def)

lemma rfc_nonempty:
  "s \<noteq> [] \<Longrightarrow>
     rfc_2822_8601_to_datetime lib (Some s) =
       (case parsedate_to_datetime lib s of
          Inr d \<Rightarrow> Inr (Some d)
        | Inl e \<Rightarrow>
            if e = ValueError
            then (case fromisoformat lib s of
                    Inr d \<Rightarrow> Inr (Some d)
                  | Inl e' \<Rightarrow> if e' = ValueError then Inr None else Inl e')
            else Inl e)"
  by (simp add: rfc_2822_8601_to_datetime_def split: sum.splits)

lemma rfc_unchanged:
  "rfc_2822_8601_to_datetime lib (Some s) = Inr (Some d) \<Longrightarrow>
     parsedate_to_datetime lib s = Inr d
     \<or> (parsedate_to_datetime lib s = Inl ValueError \<and> fromisoformat lib s = Inr d)"
  by (cases "s = []")
     (auto simp: rfc_empty rfc_nonempty split: sum.splits if_splits)

text \<open>
  Claim C6, as stated: every defined result would be a UTC-aware timestamp. It is not:
  \<open>fromisoformat\<close> reads a text without a zone as a naive \<open>datetime\<close>, and the
  function hands it on as it is.
\<close>

theorem rfc_2822_8601_to_datetime_naive_counterexample:
  "rfc_2822_8601_to_datetime example_lib (Some ''2030-01-01T00:00:00'')
     = Inr (Some \<lparr>wall = 64029052800000000, utcoffset = None\<rparr>)
   \<and> utcoffset \<lparr>wall = 64029052800000000, utcoffset = None\<rparr> \<noteq> Some 0"
proof -
  have "rfc_2822_8601_to_datetime example_lib (Some ''2030-01-01T00:00:00'')
     = Inr (Some \<lparr>wall = 64029052800000000, utcoffset = None\<rparr>)"
    by code_simp
  then show ?thesis
    by simp
qed


text \<open>
  Claim C6, amended. \<open>rfc_2822_8601_to_datetime\<close> returns no value on an absent or empty
  text; otherwise it tries \<open>parsedate_to_datetime\<close> first and \<open>fromisoformat\<close> only
  when the first raises \<open>ValueError\<close>; it returns no value when both raise
  \<open>ValueError\<close> (any other exception propagates); and a defined result is the value
  of the parser that succeeded, unchanged: aware or naive as the parser made it.
\<close>

theorem rfc_2822_8601_to_datetime_result:
  "rfc_2822_8601_to_datetime lib None = Inr None
   \<and> rfc_2822_8601_to_datetime lib (Some []) = Inr None
   \<and> (s \<noteq> [] \<longrightarrow>
        rfc_2822_8601_to_datetime lib (Some s) =
          (case parsedate_to_datetime lib s of
             Inr d \<Rightarrow> Inr (Some d)
           | Inl e \<Rightarrow>
               if e = ValueError
               then (case fromisoformat lib s of
                       Inr d \<Rightarrow> Inr (Some d)
                     | Inl e' \<Rightarrow> if e' = ValueError then Inr None else Inl e')
               else Inl e))
   \<and> (\<forall>d. rfc_2822_8601_to_datetime lib (Some s) = Inr (Some d) \<longrightarrow>
          parsedate_to_datetime lib s = Inr d
          \<or> (parsedate_to_datetime lib s = Inl ValueError \<and> fromisoformat lib s = Inr d))"
  using rfc_None rfc_empty rfc_nonempty rfc_unchanged by blast


theorem rfc_2822_8601_to_datetime_result_witness:
  "rfc_2822_8601_to_datetime example_lib (Some ''Wed, 21 Oct 2015 07:28:00 GMT'')
     = Inr (Some \<lparr>wall = 63581009280000000, utcoffset = Some 0\<rparr>)
   \<and> rfc_2822_8601_to_datetime example_lib (Some ''abc'') = Inr None
   \<and> parsedate_to_datetime example_lib ''Wed, 21 Oct 2015 07:28:00 GMT''
       = Inr \<lparr>wall = 63581009280000000, utcoffset = Some 0\<rparr>"
proof -
  let ?s = "''Wed, 21 Oct 2015 07:28:00 GMT''"
  let ?d = "\<lparr>wall = 63581009280000000, utcoffset = Some (0::int)\<rparr>"
  have ne: "?s \<noteq> []" "''abc'' \<noteq> []"
    by simp_all
  have p1: "parsedate_to_datetime example_lib ?s = Inr ?d"
    by code_simp
  have p3: "parsedate_to_datetime example_lib ''abc'' = Inl ValueError"
    by code_simp
  have f3: "fromisoformat example_lib ''abc'' = Inl ValueError"
    by code_simp
  have r1: "rfc_2822_8601_to_datetime example_lib (Some ?s) = Inr (Some ?d)"
    using rfc_2822_8601_to_datetime_result [of example_lib ?s, THEN conjunct2, THEN conjunct2,
        THEN conjunct1, rule_format, OF ne(1)]
    by (simp only: p1 sum.case)
  have r3: "rfc_2822_8601_to_datetime example_lib (Some ''abc'') = Inr None"
    using rfc_2822_8601_to_datetime_result [of example_lib "''abc''", THEN conjunct2,
        THEN conjunct2, THEN conjunct1, rule_format, OF ne(2)]
    by (simp only: p3 f3 sum.case if_True refl)
  have u1: "parsedate_to_datetime example_lib ?s = Inr ?d
     \<or> (parsedate_to_datetime example_lib ?s = Inl ValueError
          \<and> fromisoformat example_lib ?s = Inr ?d)"
    by (rule rfc_2822_8601_to_datetime_result [of example_lib ?s, THEN conjunct2,
          THEN conjunct2, THEN conjunct2, rule_format, OF r1])
  from r1 r3 p1 show ?thesis
    by simp
qed

section \<open>\<open>expires\<close>\<close>

lemma age_remaining_range:
  "age_remaining lib wr = Some r \<Longrightarrow> 0 \<le> r \<and> r \<le> 21600"
  by (auto simp: age_remaining_def AGE_REMAINING_CLAMP_MIN_def AGE_REMAINING_CLAMP_MAX_def
        Let_def split: option.splits if_splits)

lemma timedelta_seconds_small:
  "0 \<le> r \<Longrightarrow> r \<le> 21600 \<Longrightarrow> timedelta_seconds r = Inr (r * 1000000)"
proof -
  assume "0 \<le> r" "r \<le> 21600"
  then have "r div 86400 = 0"
    by simp
  then show ?thesis
    by (simp add: timedelta_seconds_def)
qed

lemma expires_absent_age:
  "age_remaining lib wr = None \<Longrightarrow>
     expires lib wr = rfc_2822_8601_to_datetime lib (headers_get (headers wr) ''Expires'')"
  by (simp add: expires_def)

lemma expires_expired:
  "age_remaining lib wr = Some r \<Longrightarrow> r \<le> 0 \<Longrightarrow> expires lib wr = Inr None"
  by (simp add: expires_def)

lemma expires_fresh:
  assumes "age_remaining lib wr = Some r" and "0 < r" and "date lib wr = Inr d"
  shows "expires lib wr =
           (if 0 \<le> wall d + r * 1000000 \<and> wall d + r * 1000000 < datetime_end
            then Inr (Some (d\<lparr>wall := wall d + r * 1000000\<rparr>))
            else Inl OverflowError)"
proof -
  have "timedelta_seconds r = Inr (r * 1000000)"
    using age_remaining_range [OF assms(1)] by (simp add: timedelta_seconds_small)
  then show ?thesis
    using assms by (simp add: expires_def add_seconds_def datetime_add_def)
qed

lemma expires_date_raises:
  "age_remaining lib wr = Some r \<Longrightarrow> 0 < r \<Longrightarrow> date lib wr = Inl e \<Longrightarrow>
     expires lib wr = Inl e"
  by (simp add: expires_def)


text \<open>
  Claim C5. When \<open>age_remaining\<close> is absent, \<open>expires\<close> is the date parse of the
  \<open>Expires\<close> header; when \<open>age_remaining\<close> is defined and at most 0, \<open>expires\<close>
  is absent; otherwise it is the view's \<open>date\<close> plus \<open>age_remaining\<close> seconds
  (an \<open>OverflowError\<close> when that sum leaves the range of \<open>datetime\<close>, and the
  exception of \<open>date\<close> when the \<open>Date\<close> parser raised one).
\<close>

theorem expires_cases:
  "(age_remaining lib wr = None \<longrightarrow>
      expires lib wr = rfc_2822_8601_to_datetime lib (headers_get (headers wr) ''Expires''))
   \<and> (\<forall>r. age_remaining lib wr = Some r \<and> r \<le> 0 \<longrightarrow> expires lib wr = Inr None)
   \<and> (\<forall>r d. age_remaining lib wr = Some r \<and> 0 < r \<and> date lib wr = Inr d \<longrightarrow>
          expires lib wr =
            (if 0 \<le> wall d + r * 1000000 \<and> wall d + r * 1000000 < datetime_end
             then Inr (Some (d\<lparr>wall := wall d + r * 1000000\<rparr>))
             else Inl OverflowError))
   \<and> (\<forall>r e. age_remaining lib wr = Some r \<and> 0 < r \<and> date lib wr = Inl e \<longrightarrow>
          expires lib wr = Inl e)"
  using expires_absent_age expires_expired expires_fresh expires_date_raises by blast

theorem expires_cases_witness:
  "expires example_lib
     (example_response [(''Expires'', ''Wed, 21 Oct 2015 07:28:00 GMT'')] example_clock)
     = Inr (Some \<lparr>wall = 63581009280000000, utcoffset = Some 0\<rparr>)
   \<and> expires example_lib (example_response [(''Cache-Control'', ''no-cache'')] example_clock)
     = Inr None
   \<and> expires example_lib
     (example_response [(''Cache-Control'', ''max-age=600''),
                        (''Date'', ''Wed, 21 Oct 2015 07:28:00 GMT'')] example_clock)
     = Inr (Some \<lparr>wall = 63581009880000000, utcoffset = Some 0\<rparr>)
   \<and> expires example_lib
     (example_response [(''Cache-Control'', ''max-age=600''),
                        (''Date'', ''1 Jan 99999999999999999999 00:00:00 GMT'')] example_clock)
     = Inl OverflowError"
proof -
  let ?w1 = "example_response [(''Expires'', ''Wed, 21 Oct 2015 07:28:00 GMT'')] example_clock"
  let ?w2 = "example_response [(''Cache-Control'', ''no-cache'')] example_clock"
  let ?w3 = "example_response [(''Cache-Control'', ''max-age=600''),
                        (''Date'', ''Wed, 21 Oct 2015 07:28:00 GMT'')] example_clock"
  let ?w4 = "example_response [(''Cache-Control'', ''max-age=600''),
                        (''Date'', ''1 Jan 99999999999999999999 00:00:00 GMT'')] example_clock"
  let ?d = "\<lparr>wall = 63581009280000000, utcoffset = Some (0::int)\<rparr>"
  have a1: "age_remaining example_lib ?w1 = None"
    by code_simp
  have x1: "rfc_2822_8601_to_datetime example_lib (headers_get (headers ?w1) ''Expires'')
              = Inr (Some ?d)"
    by code_simp
  have p1: "expires example_lib ?w1 = Inr (Some ?d)"
    using expires_cases [of example_lib ?w1, THEN conjunct1, rule_format, OF a1]
    by (simp only: x1)
  have a2: "age_remaining example_lib ?w2 = Some 0 \<and> (0::int) \<le> 0"
    by code_simp
  have p2: "expires example_lib ?w2 = Inr None"
    by (rule expires_cases [of example_lib ?w2, THEN conjunct2, THEN conjunct1, rule_format,
          OF a2])
  have a3: "age_remaining example_lib ?w3 = Some 600 \<and> (0::int) < 600
              \<and> date example_lib ?w3 = Inr ?d"
    by code_simp
  have p3: "expires example_lib ?w3 = Inr (Some \<lparr>wall = 63581009880000000, utcoffset = Some 0\<rparr>)"
    using expires_cases [of example_lib ?w3, THEN conjunct2, THEN conjunct2, THEN conjunct1,
        rule_format, OF a3]
    by (simp add: datetime_end_def)
  have a4: "age_remaining example_lib ?w4 = Some 600 \<and> (0::int) < 600
              \<and> date example_lib ?w4 = Inl OverflowError"
    by code_simp
  have p4: "expires example_lib ?w4 = Inl OverflowError"
    by (rule expires_cases [of example_lib ?w4, THEN conjunct2, THEN conjunct2, THEN conjunct2,
          rule_format, OF a4])
  from p1 p2 p3 p4 show ?thesis
    by (intro conjI)
qed

section \<open>Views of the same headers\<close>

lemma etag_same: "headers wr1 = headers wr2 \<Longrightarrow> etag wr1 = etag wr2"
  unfolding etag_def by (erule arg_cong [where f = "\<lambda>h. case headers_get h ''ETag'' of
      None \<Rightarrow> None | Some v \<Rightarrow> if v = [] then None else Some v"])

lemma max_age_same: "headers wr1 = headers wr2 \<Longrightarrow> max_age lib wr1 = max_age lib wr2"
proof -
  assume h: "headers wr1 = headers wr2"
  show ?thesis
    unfolding max_age_def h by (rule refl)
qed

lemma age_same: "headers wr1 = headers wr2 \<Longrightarrow> age lib wr1 = age lib wr2"
proof -
  assume h: "headers wr1 = headers wr2"
  show ?thesis
    unfolding age_def h by (rule refl)
qed

lemma age_remaining_same:
  "headers wr1 = headers wr2 \<Longrightarrow> age_remaining lib wr1 = age_remaining lib wr2"
proof -
  assume h: "headers wr1 = headers wr2"
  show ?thesis
    unfolding age_remaining_def max_age_same [OF h] age_same [OF h] by (rule refl)
qed

lemma date_same:
  assumes "headers wr1 = headers wr2"
    and "clock wr1 = clock wr2
         \<or> rfc_2822_8601_to_datetime lib (headers_get (headers wr1) ''Date'') \<noteq> Inr None"
  shows "date lib wr1 = date lib wr2"
proof (cases "rfc_2822_8601_to_datetime lib (headers_get (headers wr1) ''Date'')")
  case (Inl e)
  then show ?thesis
    using assms(1) by (simp add: date_def)
next
  case (Inr r)
  show ?thesis
  proof (cases r)
    case None
    with Inr assms have "clock wr1 = clock wr2"
      by simp
    then have "now wr1 = now wr2"
      by (simp add: now_def)
    with Inr None assms(1) show ?thesis
      by (simp add: date_def)
  next
    case (Some d)
    with Inr assms(1) show ?thesis
      by (simp add: date_def)
  qed
qed

lemma last_modified_same:
  assumes h: "headers wr1 = headers wr2" and d: "date lib wr1 = date lib wr2"
  shows "last_modified lib wr1 = last_modified lib wr2"
  unfolding last_modified_def h d by (rule refl)

lemma expires_same:
  assumes h: "headers wr1 = headers wr2" and d: "date lib wr1 = date lib wr2"
  shows "expires lib wr1 = expires lib wr2"
  unfolding expires_def h d age_remaining_same [OF h] by (rule refl)


text \<open>
  Claim C9, as stated: two views of identical headers would agree on every derived value.
  They do not when they are made at different instants and there is no \<open>Date\<close>
  header: \<open>date\<close> falls back to \<open>now\<close>, and \<open>last_modified\<close> and \<open>expires\<close>
  follow it.
\<close>

theorem derived_fields_depend_on_now_counterexample:
  "headers (example_response [(''Cache-Control'', ''max-age=60'')] 0)
     = headers (example_response [(''Cache-Control'', ''max-age=60'')] 1000000)
   \<and> date example_lib (example_response [(''Cache-Control'', ''max-age=60'')] 0)
       = Inr \<lparr>wall = 0, utcoffset = Some 0\<rparr>
   \<and> date example_lib (example_response [(''Cache-Control'', ''max-age=60'')] 1000000)
       = Inr \<lparr>wall = 1000000, utcoffset = Some 0\<rparr>
   \<and> last_modified example_lib (example_response [(''Cache-Control'', ''max-age=60'')] 0)
       = Inr \<lparr>wall = 0, utcoffset = Some 0\<rparr>
   \<and> last_modified example_lib (example_response [(''Cache-Control'', ''max-age=60'')] 1000000)
       = Inr \<lparr>wall = 1000000, utcoffset = Some 0\<rparr>
   \<and> expires example_lib (example_response [(''Cache-Control'', ''max-age=60'')] 0)
       = Inr (Some \<lparr>wall = 60000000, utcoffset = Some 0\<rparr>)
   \<and> expires example_lib (example_response [(''Cache-Control'', ''max-age=60'')] 1000000)
       = Inr (Some \<lparr>wall = 61000000, utcoffset = Some 0\<rparr>)"
  by code_simp


text \<open>
  Claim C9, amended. Two views of identical headers agree on \<open>etag\<close>, \<open>max_age\<close>,
  \<open>age\<close> and \<open>age_remaining\<close>; they agree on \<open>date\<close>, \<open>last_modified\<close> and
  \<open>expires\<close> as well when they were observed at the same instant or the \<open>Date\<close>
  header does not parse to "no value".
\<close>

theorem derived_fields_of_equal_headers:
  "headers wr1 = headers wr2 \<longrightarrow>
     etag wr1 = etag wr2 \<and> max_age lib wr1 = max_age lib wr2 \<and> age lib wr1 = age lib wr2
     \<and> age_remaining lib wr1 = age_remaining lib wr2
     \<and> (clock wr1 = clock wr2
          \<or> rfc_2822_8601_to_datetime lib (headers_get (headers wr1) ''Date'') \<noteq> Inr None
        \<longrightarrow> date lib wr1 = date lib wr2 \<and> last_modified lib wr1 = last_modified lib wr2
            \<and> expires lib wr1 = expires lib wr2)"
  using etag_same [of wr1 wr2] max_age_same [of wr1 wr2 lib] age_same [of wr1 wr2 lib]
    age_remaining_same [of wr1 wr2 lib] date_same [of wr1 wr2 lib]
    last_modified_same [of wr1 wr2 lib] expires_same [of wr1 wr2 lib]
  by blast


theorem derived_fields_of_equal_headers_witness:
  "headers (example_response [(''Date'', ''Wed, 21 Oct 2015 07:28:00 GMT'')] 0)
     = headers (example_response [(''Date'', ''Wed, 21 Oct 2015 07:28:00 GMT'')] 1000000)
   \<and> date example_lib (example_response [(''Date'', ''Wed, 21 Oct 2015 07:28:00 GMT'')] 0)
       = date example_lib (example_response [(''Date'', ''Wed, 21 Oct 2015 07:28:00 GMT'')] 1000000)
   \<and> age_remaining example_lib (example_response [(''Date'', ''Wed, 21 Oct 2015 07:28:00 GMT'')] 0)
       = age_remaining example_lib
           (example_response [(''Date'', ''Wed, 21 Oct 2015 07:28:00 GMT'')] 1000000)"
proof -
  let ?w1 = "example_response [(''Date'', ''Wed, 21 Oct 2015 07:28:00 GMT'')] 0"
  let ?w2 = "example_response [(''Date'', ''Wed, 21 Oct 2015 07:28:00 GMT'')] 1000000"
  have h: "headers ?w1 = headers ?w2"
    by (simp add: example_response_def)
  have d: "rfc_2822_8601_to_datetime example_lib (headers_get (headers ?w1) ''Date'') \<noteq> Inr None"
    by code_simp
  from derived_fields_of_equal_headers [of ?w1 ?w2 example_lib] h d
  have "date example_lib ?w1 = date example_lib ?w2"
    and "age_remaining example_lib ?w1 = age_remaining example_lib ?w2"
    by blast+
  with h show ?thesis
    by blast
qed

section \<open>The proxy bypass\<close>

lemma domain_matches_eq:
  "domain_matches h d = Inr (h = d \<or> suffix (CHR ''.'' # d) h)"
proof (cases "suffix d h")
  case False
  then have "h \<noteq> d" "\<not> suffix (CHR ''.'' # d) h"
    by (auto dest: suffix_ConsD)
  with False show ?thesis
    by (simp add: domain_matches_def endswith_def)
next
  case True
  then obtain zs where h: "h = zs @ d"
    by (auto simp: suffix_def)
  show ?thesis
  proof (cases "zs = []")
    case True
    with h show ?thesis
      by (simp add: domain_matches_def endswith_def suffix_def)
  next
    case False
    then obtain ys z where zs: "zs = ys @ [z]"
      by (metis rev_exhaust)
    have ne: "h \<noteq> d"
      using h False by simp
    have idx: "char_from_end h (length d + 1) = Inr z"
      using h zs by (simp add: char_from_end_def nth_append)
    have "suffix (CHR ''.'' # d) h \<longleftrightarrow> z = CHR ''.''"
      using h zs by (auto simp: suffix_def)
    with True ne idx show ?thesis
      by (simp add: domain_matches_def endswith_def)
  qed
qed

lemma any_domain_matches_eq:
  "any_domain_matches h ds = Inr (\<exists>d\<in>set ds. h = d \<or> suffix (CHR ''.'' # d) h)"
  by (induction ds) (auto simp: domain_matches_eq)

lemma private_check_eq:
  "\<forall>e. ip_address lib h = Inl e \<longrightarrow> e = ValueError \<Longrightarrow>
     private_check lib (Some h) = Inr (\<exists>a. ip_address lib h = Inr a \<and> is_private a)"
  by (cases "ip_address lib h") (auto simp: private_check_def)

lemma proxy_filter_unconfigured:
  "\<not> PROXY_BYPASS_PRIVATE ev \<Longrightarrow> PROXY_BYPASS_DOMAINS ev = [] \<Longrightarrow>
     proxy_filter lib ev u parse = Inr True"
  by (simp add: proxy_filter_def)

lemma proxy_filter_hostname:
  assumes "PROXY_BYPASS_PRIVATE ev \<longrightarrow> (\<forall>e. ip_address lib h = Inl e \<longrightarrow> e = ValueError)"
  shows "proxy_filter lib ev h False =
           Inr (\<not> ((PROXY_BYPASS_PRIVATE ev \<and> (\<exists>a. ip_address lib h = Inr a \<and> is_private a))
                  \<or> (\<exists>d\<in>set (PROXY_BYPASS_DOMAINS ev). h = d \<or> suffix (CHR ''.'' # d) h)))"
proof (cases "PROXY_BYPASS_PRIVATE ev")
  case True
  with assms have "private_check lib (Some h)
      = Inr (\<exists>a. ip_address lib h = Inr a \<and> is_private a)"
    by (simp add: private_check_eq)
  with True show ?thesis
    by (auto simp: proxy_filter_def any_domain_matches_eq)
next
  case False
  then show ?thesis
    by (auto simp: proxy_filter_def any_domain_matches_eq)
qed

lemma proxy_filter_private:
  "PROXY_BYPASS_PRIVATE ev \<Longrightarrow> ip_address lib h = Inr a \<Longrightarrow> is_private a \<Longrightarrow>
     proxy_filter lib ev h False = Inr False"
  by (simp add: proxy_filter_def private_check_def)

lemma proxy_filter_parse:
  "urlparse_hostname lib u = Inr (Some h) \<Longrightarrow>
     proxy_filter lib ev u True = proxy_filter lib ev h False"
  by (simp add: proxy_filter_def)

text \<open>
  Claim C8. With neither bypass configured \<open>proxy_filter\<close> answers "use the proxy"
  (\<open>True\<close>). With the private bypass on, a host name that \<open>ip_address\<close> reads as
  an address inside one of \<open>PRIVATE_NETWORKS\<close> is bypassed (\<open>False\<close>). In general,
  for a host name on which \<open>ip_address\<close> raises nothing but \<open>ValueError\<close>, the
  answer is "bypass" exactly when the private rule applies or the host name equals a
  configured domain or ends with a dot followed by it. With \<open>parse\<close> set, the host
  name is the one \<open>urlparse\<close> extracts.
\<close>

theorem proxy_filter_rules:
  "(\<not> PROXY_BYPASS_PRIVATE ev \<and> PROXY_BYPASS_DOMAINS ev = [] \<longrightarrow>
      proxy_filter lib ev u parse = Inr True)
   \<and> (PROXY_BYPASS_PRIVATE ev \<and> ip_address lib h = Inr a \<and> is_private a \<longrightarrow>
        proxy_filter lib ev h False = Inr False)
   \<and> ((PROXY_BYPASS_PRIVATE ev \<longrightarrow> (\<forall>e. ip_address lib h = Inl e \<longrightarrow> e = ValueError)) \<longrightarrow>
        proxy_filter lib ev h False =
          Inr (\<not> ((PROXY_BYPASS_PRIVATE ev \<and> (\<exists>a. ip_address lib h = Inr a \<and> is_private a))
                 \<or> (\<exists>d\<in>set (PROXY_BYPASS_DOMAINS ev). h = d \<or> suffix (CHR ''.'' # d) h))))
   \<and> (urlparse_hostname lib u = Inr (Some h) \<longrightarrow>
        proxy_filter lib ev u True = proxy_filter lib ev h False)"
  using proxy_filter_unconfigured [of ev lib u parse] proxy_filter_private [of ev lib h a]
    proxy_filter_hostname [of ev lib h] proxy_filter_parse [of lib u h ev]
  by blast

theorem proxy_filter_rules_witness:
  "proxy_filter example_lib \<lparr>PROXY_BYPASS_PRIVATE = False, PROXY_BYPASS_DOMAINS = []\<rparr>
     ''http://127.0.0.1/feed'' True = Inr True
   \<and> proxy_filter example_lib \<lparr>PROXY_BYPASS_PRIVATE = True, PROXY_BYPASS_DOMAINS = []\<rparr>
       ''127.0.0.1'' False = Inr False
   \<and> proxy_filter example_lib
       \<lparr>PROXY_BYPASS_PRIVATE = True, PROXY_BYPASS_DOMAINS = [''example.com'']\<rparr>
       ''8.8.8.8'' False = Inr True
   \<and> proxy_filter example_lib
       \<lparr>PROXY_BYPASS_PRIVATE = True, PROXY_BYPASS_DOMAINS = [''example.com'']\<rparr>
       ''sub.example.com'' False = Inr False
   \<and> proxy_filter example_lib
       \<lparr>PROXY_BYPASS_PRIVATE = True, PROXY_BYPASS_DOMAINS = [''example.com'']\<rparr>
       ''notexample.com'' False = Inr True
   \<and> proxy_filter example_lib
       \<lparr>PROXY_BYPASS_PRIVATE = True, PROXY_BYPASS_DOMAINS = [''example.com'']\<rparr>
       ''http://sub.example.com/feed'' True = Inr False"
proof -
  let ?e0 = "\<lparr>PROXY_BYPASS_PRIVATE = False, PROXY_BYPASS_DOMAINS = []\<rparr>"
  let ?e1 = "\<lparr>PROXY_BYPASS_PRIVATE = True, PROXY_BYPASS_DOMAINS = []\<rparr>"
  let ?e2 = "\<lparr>PROXY_BYPASS_PRIVATE = True, PROXY_BYPASS_DOMAINS = [''example.com'']\<rparr>"
  have p1: "proxy_filter example_lib ?e0 ''http://127.0.0.1/feed'' True = Inr True"
    by (rule proxy_filter_rules [THEN conjunct1, rule_format]) simp
  have lo: "ip_address example_lib ''127.0.0.1'' = Inr (IPv4Address 0x7F000001)"
    by code_simp
  have lop: "is_private (IPv4Address 0x7F000001)"
    by code_simp
  have p2: "proxy_filter example_lib ?e1 ''127.0.0.1'' False = Inr False"
    by (rule proxy_filter_rules [THEN conjunct2, THEN conjunct1, rule_format,
          of _ _ _ "IPv4Address 0x7F000001"])
       (simp add: lo lop)
  have g: "ip_address example_lib ''8.8.8.8'' = Inr (IPv4Address 0x08080808)"
    by code_simp
  have gp: "\<not> is_private (IPv4Address 0x08080808)"
    by code_simp
  have gd: "''8.8.8.8'' \<noteq> ''example.com''" "\<not> suffix ''.example.com'' ''8.8.8.8''"
    by code_simp+
  have "proxy_filter example_lib ?e2 ''8.8.8.8'' False =
          Inr (\<not> ((PROXY_BYPASS_PRIVATE ?e2
                     \<and> (\<exists>a. ip_address example_lib ''8.8.8.8'' = Inr a \<and> is_private a))
                 \<or> (\<exists>d\<in>set (PROXY_BYPASS_DOMAINS ?e2).
                       ''8.8.8.8'' = d \<or> suffix (CHR ''.'' # d) ''8.8.8.8'')))"
    by (rule proxy_filter_rules [THEN conjunct2, THEN conjunct2, THEN conjunct1, rule_format])
       (simp add: g)
  then have p3: "proxy_filter example_lib ?e2 ''8.8.8.8'' False = Inr True"
    using gp gd by (simp add: g)
  have s: "ip_address example_lib ''sub.example.com'' = Inl ValueError"
    by code_simp
  have sd: "suffix ''.example.com'' ''sub.example.com''"
    by code_simp
  have "proxy_filter example_lib ?e2 ''sub.example.com'' False =
          Inr (\<not> ((PROXY_BYPASS_PRIVATE ?e2
                     \<and> (\<exists>a. ip_address example_lib ''sub.example.com'' = Inr a \<and> is_private a))
                 \<or> (\<exists>d\<in>set (PROXY_BYPASS_DOMAINS ?e2).
                       ''sub.example.com'' = d \<or> suffix (CHR ''.'' # d) ''sub.example.com'')))"
    by (rule proxy_filter_rules [THEN conjunct2, THEN conjunct2, THEN conjunct1, rule_format])
       (simp add: s)
  then have p4: "proxy_filter example_lib ?e2 ''sub.example.com'' False = Inr False"
    using sd by (simp add: s)
  have n: "ip_address example_lib ''notexample.com'' = Inl ValueError"
    by code_simp
  have nd: "''notexample.com'' \<noteq> ''example.com''" "\<not> suffix ''.example.com'' ''notexample.com''"
    by code_simp+
  have "proxy_filter example_lib ?e2 ''notexample.com'' False =
          Inr (\<not> ((PROXY_BYPASS_PRIVATE ?e2
                     \<and> (\<exists>a. ip_address example_lib ''notexample.com'' = Inr a \<and> is_private a))
                 \<or> (\<exists>d\<in>set (PROXY_BYPASS_DOMAINS ?e2).
                       ''notexample.com'' = d \<or> suffix (CHR ''.'' # d) ''notexample.com'')))"
    by (rule proxy_filter_rules [THEN conjunct2, THEN conjunct2, THEN conjunct1, rule_format])
       (simp add: n)
  then have p5: "proxy_filter example_lib ?e2 ''notexample.com'' False = Inr True"
    using nd by (simp add: n)
  have u: "urlparse_hostname example_lib ''http://sub.example.com/feed''
             = Inr (Some ''sub.example.com'')"
    by code_simp
  have "proxy_filter example_lib ?e2 ''http://sub.example.com/feed'' True
          = proxy_filter example_lib ?e2 ''sub.example.com'' False"
    by (rule proxy_filter_rules [THEN conjunct2, THEN conjunct2, THEN conjunct2, rule_format,
          OF u])
  with p4 have p6: "proxy_filter example_lib ?e2 ''http://sub.example.com/feed'' True = Inr False"
    by simp
  from p1 p2 p3 p4 p5 p6 show ?thesis
    by (intro conjI)
qed

section \<open>The next check: the Cloudflare rule\<close>

lemma calc_with_response:
  "web_response self = Some wr \<Longrightarrow> wf_headers self = Some hs \<Longrightarrow>
     calc_next_check_as_per_server_side_cache lib self =
       and_then (defer_as_per_cloudflare lib hs wr)
         (\<lambda>r. case r of
                 Some e \<Rightarrow> Inr (Some e)
               | None \<Rightarrow> (case rss_d self of
                            None \<Rightarrow> Inl AttributeError
                          | Some fd \<Rightarrow> defer_as_per_rsshub lib fd wr))"
  by (simp add: calc_next_check_as_per_server_side_cache_def)

lemma cloudflare_fires:
  "headers_get hs ''cf-cache-status'' = Some v \<Longrightarrow>
   v \<in> {''HIT'', ''MISS'', ''EXPIRED'', ''REVALIDATED''} \<Longrightarrow>
   expires lib wr = Inr (Some e) \<Longrightarrow> datetime_gt e (now wr) = Inr True \<Longrightarrow>
     defer_as_per_cloudflare lib hs wr = Inr (Some e)"
  by (auto simp: defer_as_per_cloudflare_def)

lemma cloudflare_silent:
  "headers_get hs ''cf-cache-status'' = None
   \<or> (\<exists>v. headers_get hs ''cf-cache-status'' = Some v
           \<and> v \<notin> {''HIT'', ''MISS'', ''EXPIRED'', ''REVALIDATED''})
   \<or> expires lib wr = Inr None
   \<or> (\<exists>e. expires lib wr = Inr (Some e) \<and> datetime_gt e (now wr) = Inr False) \<Longrightarrow>
     defer_as_per_cloudflare lib hs wr = Inr None"
  by (auto simp: defer_as_per_cloudflare_def split: option.splits)

lemma lower_cf_cache_status: "lower ''cf-cache-status'' = ''cf-cache-status''"
  by code_simp

lemma headers_get_first:
  "lower n = ''cf-cache-status'' \<Longrightarrow>
     headers_get ((n, v) # rest) ''cf-cache-status'' = Some v"
  by (simp add: headers_get_def lower_cf_cache_status)


text \<open>
  Claim C1, as stated: the status header would be looked up under the key
  \<open>cf-cache-status\<close> with letter case told apart. It is not: the headers are a
  case-insensitive multidict, so a response that spells the header
  \<open>CF-Cache-Status: HIT\<close> fires the rule, although a case-sensitive lookup finds no
  value and the feed-TTL rule yields no deferral.
\<close>

theorem cloudflare_case_sensitive_key_counterexample:
  "spec_case_sensitive_get [(''CF-Cache-Status'', ''HIT'')] ''cf-cache-status'' = None
   \<and> calc_next_check_as_per_server_side_cache example_lib
        (example_feed (Some [(''CF-Cache-Status'', ''HIT'')])
           (Some \<lparr>generator = None, updated = None, ttl = None\<rparr>)
           (example_response [(''Cache-Control'', ''max-age=600'')] example_clock))
       = Inr (Some \<lparr>wall = 63581009280000000, utcoffset = Some 0\<rparr>)
   \<and> defer_as_per_rsshub example_lib \<lparr>generator = None, updated = None, ttl = None\<rparr>
        (example_response [(''Cache-Control'', ''max-age=600'')] example_clock)
       = Inr None"
  by code_simp


text \<open>
  Claim C1, amended. For a feed with a response and headers: when the value of the
  \<open>cf-cache-status\<close> header, looked up without regard to the letter case of its name,
  is one of \<open>HIT\<close>, \<open>MISS\<close>, \<open>EXPIRED\<close>, \<open>REVALIDATED\<close> and \<open>expires\<close> is
  defined and compares greater than \<open>now\<close>, the result is that \<open>expires\<close>; when
  the header is absent or has another value, or \<open>expires\<close> is absent or compares not
  greater than \<open>now\<close>, the result is that of the feed-TTL rule.
\<close>

theorem cloudflare_rule:
  "web_response self = Some wr \<and> wf_headers self = Some hs \<longrightarrow>
     (\<forall>v e. headers_get hs ''cf-cache-status'' = Some v
            \<and> v \<in> {''HIT'', ''MISS'', ''EXPIRED'', ''REVALIDATED''}
            \<and> expires lib wr = Inr (Some e) \<and> datetime_gt e (now wr) = Inr True \<longrightarrow>
            calc_next_check_as_per_server_side_cache lib self = Inr (Some e))
     \<and> (headers_get hs ''cf-cache-status'' = None
         \<or> (\<exists>v. headers_get hs ''cf-cache-status'' = Some v
                 \<and> v \<notin> {''HIT'', ''MISS'', ''EXPIRED'', ''REVALIDATED''})
         \<or> expires lib wr = Inr None
         \<or> (\<exists>e. expires lib wr = Inr (Some e) \<and> datetime_gt e (now wr) = Inr False) \<longrightarrow>
         calc_next_check_as_per_server_side_cache lib self =
           (case rss_d self of
              None \<Rightarrow> Inl AttributeError
            | Some fd \<Rightarrow> defer_as_per_rsshub lib fd wr))
     \<and> (\<forall>n v rest. hs = (n, v) # rest \<and> lower n = ''cf-cache-status'' \<longrightarrow>
            headers_get hs ''cf-cache-status'' = Some v)"
proof (intro impI conjI allI)
  fix v e
  assume a: "web_response self = Some wr \<and> wf_headers self = Some hs"
    and b: "headers_get hs ''cf-cache-status'' = Some v
            \<and> v \<in> {''HIT'', ''MISS'', ''EXPIRED'', ''REVALIDATED''}
            \<and> expires lib wr = Inr (Some e) \<and> datetime_gt e (now wr) = Inr True"
  from b have "defer_as_per_cloudflare lib hs wr = Inr (Some e)"
    using cloudflare_fires [of hs v lib wr e] by blast
  with a show "calc_next_check_as_per_server_side_cache lib self = Inr (Some e)"
    by (simp add: calc_with_response)
next
  assume a: "web_response self = Some wr \<and> wf_headers self = Some hs"
    and b: "headers_get hs ''cf-cache-status'' = None
         \<or> (\<exists>v. headers_get hs ''cf-cache-status'' = Some v
                 \<and> v \<notin> {''HIT'', ''MISS'', ''EXPIRED'', ''REVALIDATED''})
         \<or> expires lib wr = Inr None
         \<or> (\<exists>e. expires lib wr = Inr (Some e) \<and> datetime_gt e (now wr) = Inr False)"
  from b have "defer_as_per_cloudflare lib hs wr = Inr None"
    by (rule cloudflare_silent)
  with a show "calc_next_check_as_per_server_side_cache lib self =
           (case rss_d self of
              None \<Rightarrow> Inl AttributeError
            | Some fd \<Rightarrow> defer_as_per_rsshub lib fd wr)"
    by (simp add: calc_with_response)
next
  fix n v rest
  assume "hs = (n, v) # rest \<and> lower n = ''cf-cache-status''"
  then show "headers_get hs ''cf-cache-status'' = Some v"
    by (simp add: headers_get_first)
qed

theorem cloudflare_rule_witness:
  "calc_next_check_as_per_server_side_cache example_lib
     (example_feed (Some [(''cf-cache-status'', ''HIT'')])
        (Some \<lparr>generator = None, updated = None, ttl = None\<rparr>)
        (example_response [(''Expires'', ''Wed, 21 Oct 2015 07:28:00 GMT'')] example_clock))
     = Inr (Some \<lparr>wall = 63581009280000000, utcoffset = Some 0\<rparr>)
   \<and> calc_next_check_as_per_server_side_cache example_lib
     (example_feed (Some [(''cf-cache-status'', ''DYNAMIC'')])
        (Some \<lparr>generator = None, updated = None, ttl = None\<rparr>)
        (example_response [(''Expires'', ''Wed, 21 Oct 2015 07:28:00 GMT'')] example_clock))
     = Inr None
   \<and> headers_get [(''CF-Cache-Status'', ''HIT'')] ''cf-cache-status'' = Some ''HIT''"
proof -
  let ?fd = "\<lparr>generator = None, updated = None, ttl = None\<rparr>"
  let ?wr = "example_response [(''Expires'', ''Wed, 21 Oct 2015 07:28:00 GMT'')] example_clock"
  let ?h1 = "[(''cf-cache-status'', ''HIT'')]"
  let ?h2 = "[(''cf-cache-status'', ''DYNAMIC'')]"
  let ?e = "\<lparr>wall = 63581009280000000, utcoffset = Some (0::int)\<rparr>"
  have f1: "web_response (example_feed (Some ?h1) (Some ?fd) ?wr) = Some ?wr
            \<and> wf_headers (example_feed (Some ?h1) (Some ?fd) ?wr) = Some ?h1"
    by (simp add: example_feed_def)
  have f2: "web_response (example_feed (Some ?h2) (Some ?fd) ?wr) = Some ?wr
            \<and> wf_headers (example_feed (Some ?h2) (Some ?fd) ?wr) = Some ?h2"
    by (simp add: example_feed_def)
  have r2: "rss_d (example_feed (Some ?h2) (Some ?fd) ?wr) = Some ?fd"
    by (simp add: example_feed_def)
  have g1: "headers_get ?h1 ''cf-cache-status'' = Some ''HIT''"
    by code_simp
  have g2: "headers_get ?h2 ''cf-cache-status'' = Some ''DYNAMIC''"
    by code_simp
  have x: "expires example_lib ?wr = Inr (Some ?e)"
    by code_simp
  have c: "datetime_gt ?e (now ?wr) = Inr True"
    by code_simp
  have p1: "calc_next_check_as_per_server_side_cache example_lib
              (example_feed (Some ?h1) (Some ?fd) ?wr) = Inr (Some ?e)"
    by (rule cloudflare_rule [THEN mp, OF f1, THEN conjunct1, rule_format, of "''HIT''"])
       (simp add: g1 x c)
  have "calc_next_check_as_per_server_side_cache example_lib
              (example_feed (Some ?h2) (Some ?fd) ?wr)
          = (case rss_d (example_feed (Some ?h2) (Some ?fd) ?wr) of
               None \<Rightarrow> Inl AttributeError
             | Some fd \<Rightarrow> defer_as_per_rsshub example_lib fd ?wr)"
    by (rule cloudflare_rule [THEN mp, OF f2, THEN conjunct2, THEN conjunct1, rule_format])
       (simp add: g2)
  moreover have "defer_as_per_rsshub example_lib ?fd ?wr = Inr None"
    by (simp add: defer_as_per_rsshub_def)
  ultimately have p2: "calc_next_check_as_per_server_side_cache example_lib
              (example_feed (Some ?h2) (Some ?fd) ?wr) = Inr None"
    by (simp add: r2)
  have l: "lower ''CF-Cache-Status'' = ''cf-cache-status''"
    by code_simp
  have f3: "web_response (example_feed (Some [(''CF-Cache-Status'', ''HIT'')]) (Some ?fd) ?wr)
              = Some ?wr
            \<and> wf_headers (example_feed (Some [(''CF-Cache-Status'', ''HIT'')]) (Some ?fd) ?wr)
              = Some [(''CF-Cache-Status'', ''HIT'')]"
    by (simp add: example_feed_def)
  have p3: "headers_get [(''CF-Cache-Status'', ''HIT'')] ''cf-cache-status'' = Some ''HIT''"
    by (rule cloudflare_rule [THEN mp, OF f3, THEN conjunct2, THEN conjunct2, rule_format,
          of "''CF-Cache-Status''" "''HIT''" "[]"])
       (simp add: l)
  from p1 p2 p3 show ?thesis
    by (intro conjI)
qed

section \<open>The next check: the RSSHub rule\<close>

lemma ttl_in_second_eq:
  "ttl_in_second lib fd wr =
     (if isdecimal (case ttl fd of None \<Rightarrow> [] | Some s \<Rightarrow> s)
         \<and> py_int (int_max_str_digits lib) (case ttl fd of None \<Rightarrow> [] | Some s \<Rightarrow> s) = None
      then Inl ValueError
      else Inr (if spec_effective_ttl lib fd wr = 0 then - 1 else spec_effective_ttl lib fd wr))"
  by (auto simp: ttl_in_second_def spec_effective_ttl_def Let_def split: option.splits)

lemma spec_effective_ttl_unparsed:
  "isdecimal (case ttl fd of None \<Rightarrow> [] | Some s \<Rightarrow> s) \<Longrightarrow>
   py_int (int_max_str_digits lib) (case ttl fd of None \<Rightarrow> [] | Some s \<Rightarrow> s) = None \<Longrightarrow>
     spec_effective_ttl lib fd wr = - 1"
  by (simp add: spec_effective_ttl_def)

lemma rsshub_raises_ValueError:
  "generator fd = Some ''RSSHub'' \<Longrightarrow> updated fd = Some u \<Longrightarrow> u \<noteq> [] \<Longrightarrow>
   isdecimal (case ttl fd of None \<Rightarrow> [] | Some s \<Rightarrow> s) \<Longrightarrow>
   py_int (int_max_str_digits lib) (case ttl fd of None \<Rightarrow> [] | Some s \<Rightarrow> s) = None \<Longrightarrow>
     defer_as_per_rsshub lib fd wr = Inl ValueError"
  by (simp add: defer_as_per_rsshub_def ttl_in_second_eq)

lemma rsshub_unfold:
  assumes "generator fd = Some ''RSSHub''" and "updated fd = Some u" and "u \<noteq> []"
    and "\<not> (isdecimal (case ttl fd of None \<Rightarrow> [] | Some s \<Rightarrow> s)
           \<and> py_int (int_max_str_digits lib) (case ttl fd of None \<Rightarrow> [] | Some s \<Rightarrow> s) = None)"
  shows "defer_as_per_rsshub lib fd wr =
           (if 300 < spec_effective_ttl lib fd wr
            then and_then (rfc_2822_8601_to_datetime lib (Some u))
                   (\<lambda>r. case r of
                           None \<Rightarrow> Inr None
                         | Some d \<Rightarrow>
                             and_then (add_seconds d (spec_effective_ttl lib fd wr))
                               (\<lambda>t. and_then (datetime_gt t (now wr))
                                      (\<lambda>b. Inr (if b then Some t else None))))
            else Inr None)"
proof -
  have "ttl_in_second lib fd wr =
          Inr (if spec_effective_ttl lib fd wr = 0 then - 1 else spec_effective_ttl lib fd wr)"
    unfolding ttl_in_second_eq using assms(4) by (rule if_not_P)
  then show ?thesis
    using assms(1-3) by (simp add: defer_as_per_rsshub_def)
qed

lemma rsshub_returns_iff:
  assumes "generator fd = Some ''RSSHub''" and "updated fd = Some u" and "u \<noteq> []"
  shows "defer_as_per_rsshub lib fd wr = Inr (Some t) \<longleftrightarrow>
           300 < spec_effective_ttl lib fd wr
           \<and> (\<exists>d. rfc_2822_8601_to_datetime lib (Some u) = Inr (Some d)
                  \<and> add_seconds d (spec_effective_ttl lib fd wr) = Inr t)
           \<and> datetime_gt t (now wr) = Inr True"
proof (cases "isdecimal (case ttl fd of None \<Rightarrow> [] | Some s \<Rightarrow> s)
           \<and> py_int (int_max_str_digits lib) (case ttl fd of None \<Rightarrow> [] | Some s \<Rightarrow> s) = None")
  case True
  then have "defer_as_per_rsshub lib fd wr = Inl ValueError"
    using assms by (simp add: rsshub_raises_ValueError)
  moreover have "spec_effective_ttl lib fd wr = - 1"
    using True by (simp add: spec_effective_ttl_unparsed)
  ultimately show ?thesis
    by simp
next
  case False
  show ?thesis
    unfolding rsshub_unfold [OF assms False]
    by (auto simp: and_then_def split: sum.splits option.splits if_splits)
qed

lemma rsshub_no_deferral:
  assumes "generator fd = Some ''RSSHub''" and "updated fd = Some u" and "u \<noteq> []"
    and "\<not> (isdecimal (case ttl fd of None \<Rightarrow> [] | Some s \<Rightarrow> s)
           \<and> py_int (int_max_str_digits lib) (case ttl fd of None \<Rightarrow> [] | Some s \<Rightarrow> s) = None)"
    and "spec_effective_ttl lib fd wr \<le> 300
         \<or> rfc_2822_8601_to_datetime lib (Some u) = Inr None
         \<or> (\<exists>d t. rfc_2822_8601_to_datetime lib (Some u) = Inr (Some d)
                  \<and> add_seconds d (spec_effective_ttl lib fd wr) = Inr t
                  \<and> datetime_gt t (now wr) = Inr False)"
  shows "defer_as_per_rsshub lib fd wr = Inr None"
  unfolding rsshub_unfold [OF assms(1-4)] using assms(5) by auto

lemma rsshub_not_applicable:
  "generator fd \<noteq> Some ''RSSHub'' \<or> updated fd = None \<or> updated fd = Some [] \<Longrightarrow>
     defer_as_per_rsshub lib fd wr = Inr None"
  by (auto simp: defer_as_per_rsshub_def)

lemma calc_reaches_rsshub:
  "web_response self = Some wr \<Longrightarrow> wf_headers self = Some hs \<Longrightarrow> rss_d self = Some fd \<Longrightarrow>
   defer_as_per_cloudflare lib hs wr = Inr None \<Longrightarrow>
     calc_next_check_as_per_server_side_cache lib self = defer_as_per_rsshub lib fd wr"
  by (simp add: calc_next_check_as_per_server_side_cache_def)

text \<open>
  Claim C2. For a feed whose generator is exactly \<open>RSSHub\<close> and which carries a
  non-empty \<open>updated\<close> text, with the effective TTL as the specification words it:
  the rule returns an instant exactly when the TTL exceeds 300, \<open>updated\<close> parses, the
  instant is \<open>updated\<close> plus the TTL in seconds and it compares greater than \<open>now\<close>;
  it yields no deferral when the TTL is at most 300, \<open>updated\<close> does not parse, or
  the instant compares not greater than \<open>now\<close>; the TTL the code computes is the
  specification's, with \<open>-1\<close> in place of 0; and the whole function returns what the
  rule returns whenever the Cloudflare rule has yielded nothing.
\<close>

theorem rsshub_rule:
  "generator fd = Some ''RSSHub'' \<and> updated fd = Some u \<and> u \<noteq> [] \<longrightarrow>
     (\<forall>t. defer_as_per_rsshub lib fd wr = Inr (Some t) \<longleftrightarrow>
            300 < spec_effective_ttl lib fd wr
            \<and> (\<exists>d. rfc_2822_8601_to_datetime lib (Some u) = Inr (Some d)
                   \<and> add_seconds d (spec_effective_ttl lib fd wr) = Inr t)
            \<and> datetime_gt t (now wr) = Inr True)
     \<and> (\<not> (isdecimal (case ttl fd of None \<Rightarrow> [] | Some s \<Rightarrow> s)
             \<and> py_int (int_max_str_digits lib) (case ttl fd of None \<Rightarrow> [] | Some s \<Rightarrow> s) = None)
         \<and> (spec_effective_ttl lib fd wr \<le> 300
              \<or> rfc_2822_8601_to_datetime lib (Some u) = Inr None
              \<or> (\<exists>d t. rfc_2822_8601_to_datetime lib (Some u) = Inr (Some d)
                       \<and> add_seconds d (spec_effective_ttl lib fd wr) = Inr t
                       \<and> datetime_gt t (now wr) = Inr False)) \<longrightarrow>
         defer_as_per_rsshub lib fd wr = Inr None)
     \<and> (\<not> (isdecimal (case ttl fd of None \<Rightarrow> [] | Some s \<Rightarrow> s)
             \<and> py_int (int_max_str_digits lib) (case ttl fd of None \<Rightarrow> [] | Some s \<Rightarrow> s) = None)
         \<longrightarrow> ttl_in_second lib fd wr =
               Inr (if spec_effective_ttl lib fd wr = 0 then - 1
                    else spec_effective_ttl lib fd wr))
     \<and> (\<forall>self hs. web_response self = Some wr \<and> wf_headers self = Some hs
            \<and> rss_d self = Some fd \<and> defer_as_per_cloudflare lib hs wr = Inr None \<longrightarrow>
            calc_next_check_as_per_server_side_cache lib self = defer_as_per_rsshub lib fd wr)"
proof (intro impI conjI allI)
  fix t
  assume "generator fd = Some ''RSSHub'' \<and> updated fd = Some u \<and> u \<noteq> []"
  then show "defer_as_per_rsshub lib fd wr = Inr (Some t) \<longleftrightarrow>
            300 < spec_effective_ttl lib fd wr
            \<and> (\<exists>d. rfc_2822_8601_to_datetime lib (Some u) = Inr (Some d)
                   \<and> add_seconds d (spec_effective_ttl lib fd wr) = Inr t)
            \<and> datetime_gt t (now wr) = Inr True"
    using rsshub_returns_iff [of fd u lib wr t] by blast
next
  assume a: "generator fd = Some ''RSSHub'' \<and> updated fd = Some u \<and> u \<noteq> []"
    and b: "\<not> (isdecimal (case ttl fd of None \<Rightarrow> [] | Some s \<Rightarrow> s)
             \<and> py_int (int_max_str_digits lib) (case ttl fd of None \<Rightarrow> [] | Some s \<Rightarrow> s) = None)
         \<and> (spec_effective_ttl lib fd wr \<le> 300
              \<or> rfc_2822_8601_to_datetime lib (Some u) = Inr None
              \<or> (\<exists>d t. rfc_2822_8601_to_datetime lib (Some u) = Inr (Some d)
                       \<and> add_seconds d (spec_effective_ttl lib fd wr) = Inr t
                       \<and> datetime_gt t (now wr) = Inr False))"
  show "defer_as_per_rsshub lib fd wr = Inr None"
    by (rule rsshub_no_deferral [of fd u lib wr]) (use a b in blast)+
next
  assume "\<not> (isdecimal (case ttl fd of None \<Rightarrow> [] | Some s \<Rightarrow> s)
             \<and> py_int (int_max_str_digits lib) (case ttl fd of None \<Rightarrow> [] | Some s \<Rightarrow> s) = None)"
  then show "ttl_in_second lib fd wr =
               Inr (if spec_effective_ttl lib fd wr = 0 then - 1
                    else spec_effective_ttl lib fd wr)"
    unfolding ttl_in_second_eq by (rule if_not_P)
next
  fix self :: WebFeed and hs
  assume "web_response self = Some wr \<and> wf_headers self = Some hs
            \<and> rss_d self = Some fd \<and> defer_as_per_cloudflare lib hs wr = Inr None"
  then show "calc_next_check_as_per_server_side_cache lib self = defer_as_per_rsshub lib fd wr"
    using calc_reaches_rsshub [of self wr hs fd lib] by blast
qed

theorem rsshub_rule_witness:
  "calc_next_check_as_per_server_side_cache example_lib
     (example_feed (Some [])
        (Some \<lparr>generator = Some ''RSSHub'',
               updated = Some ''Wed, 21 Oct 2015 07:28:00 GMT'', ttl = Some ''10''\<rparr>)
        (example_response [] 63581009281000000))
     = Inr (Some \<lparr>wall = 63581009880000000, utcoffset = Some 0\<rparr>)
   \<and> defer_as_per_rsshub example_lib
       \<lparr>generator = Some ''RSSHub'',
        updated = Some ''Wed, 21 Oct 2015 07:28:00 GMT'', ttl = Some ''4''\<rparr>
       (example_response [] 63581009281000000)
     = Inr None
   \<and> ttl_in_second example_lib
       \<lparr>generator = Some ''RSSHub'',
        updated = Some ''Wed, 21 Oct 2015 07:28:00 GMT'', ttl = Some ''4''\<rparr>
       (example_response [] 63581009281000000)
     = Inr 240"
proof -
  let ?u = "''Wed, 21 Oct 2015 07:28:00 GMT''"
  let ?fd = "\<lparr>generator = Some ''RSSHub'', updated = Some ?u, ttl = Some ''10''\<rparr>"
  let ?fd4 = "\<lparr>generator = Some ''RSSHub'', updated = Some ?u, ttl = Some ''4''\<rparr>"
  let ?wr = "example_response [] 63581009281000000"
  let ?self = "example_feed (Some []) (Some ?fd) ?wr"
  let ?d = "\<lparr>wall = 63581009280000000, utcoffset = Some (0::int)\<rparr>"
  let ?t = "\<lparr>wall = 63581009880000000, utcoffset = Some (0::int)\<rparr>"
  have h: "generator ?fd = Some ''RSSHub'' \<and> updated ?fd = Some ?u \<and> ?u \<noteq> []"
    by simp
  have h4: "generator ?fd4 = Some ''RSSHub'' \<and> updated ?fd4 = Some ?u \<and> ?u \<noteq> []"
    by simp
  have T: "spec_effective_ttl example_lib ?fd ?wr = 600"
    by code_simp
  have T4: "spec_effective_ttl example_lib ?fd4 ?wr = 240"
    by code_simp
  have ok4: "\<not> (isdecimal (case ttl ?fd4 of None \<Rightarrow> [] | Some s \<Rightarrow> s)
             \<and> py_int (int_max_str_digits example_lib)
                  (case ttl ?fd4 of None \<Rightarrow> [] | Some s \<Rightarrow> s) = None)"
    by code_simp
  have r: "rfc_2822_8601_to_datetime example_lib (Some ?u) = Inr (Some ?d)"
    by code_simp
  have a: "add_seconds ?d 600 = Inr ?t"
    by code_simp
  have c: "datetime_gt ?t (now ?wr) = Inr True"
    by code_simp
  have "defer_as_per_rsshub example_lib ?fd ?wr = Inr (Some ?t) \<longleftrightarrow>
            300 < spec_effective_ttl example_lib ?fd ?wr
            \<and> (\<exists>d. rfc_2822_8601_to_datetime example_lib (Some ?u) = Inr (Some d)
                   \<and> add_seconds d (spec_effective_ttl example_lib ?fd ?wr) = Inr ?t)
            \<and> datetime_gt ?t (now ?wr) = Inr True"
    by (rule rsshub_rule [THEN mp, OF h, THEN conjunct1, rule_format])
  then have p: "defer_as_per_rsshub example_lib ?fd ?wr = Inr (Some ?t)"
    using a c by (simp add: T r)
  have s: "web_response ?self = Some ?wr \<and> wf_headers ?self = Some []
            \<and> rss_d ?self = Some ?fd \<and> defer_as_per_cloudflare example_lib [] ?wr = Inr None"
    by (simp add: example_feed_def defer_as_per_cloudflare_def headers_get_def)
  have "calc_next_check_as_per_server_side_cache example_lib ?self
          = defer_as_per_rsshub example_lib ?fd ?wr"
    by (rule rsshub_rule [THEN mp, OF h, THEN conjunct2, THEN conjunct2, THEN conjunct2,
          rule_format, OF s])
  with p have p1: "calc_next_check_as_per_server_side_cache example_lib ?self = Inr (Some ?t)"
    by simp
  have p2: "defer_as_per_rsshub example_lib ?fd4 ?wr = Inr None"
    by (rule rsshub_rule [THEN mp, OF h4, THEN conjunct2, THEN conjunct1, rule_format])
       (use ok4 T4 in simp)
  have "ttl_in_second example_lib ?fd4 ?wr =
               Inr (if spec_effective_ttl example_lib ?fd4 ?wr = 0 then - 1
                    else spec_effective_ttl example_lib ?fd4 ?wr)"
    by (rule rsshub_rule [THEN mp, OF h4, THEN conjunct2, THEN conjunct2, THEN conjunct1,
          rule_format, OF ok4])
  then have p3: "ttl_in_second example_lib ?fd4 ?wr = Inr 240"
    by (simp add: T4)
  from p1 p2 p3 show ?thesis
    by (intro conjI)
qed

section \<open>Exceptions that reach the caller\<close>

text \<open>
  Claim C7 says that no operation raises. These inputs raise: an \<open>Expires\<close> header in
  ISO form without a zone is read as a naive \<open>datetime\<close>, and comparing it with the
  aware \<open>now\<close> is a \<open>TypeError\<close>; a date whose year is out of the constructor's
  range makes the date parser raise \<open>OverflowError\<close>, which \<open>suppress(ValueError)\<close>
  lets through; a huge \<open>ttl\<close> overflows \<open>timedelta\<close>; a feed without headers and a
  URL without a host name are attribute accesses on \<open>None\<close>.
\<close>

theorem operations_raise:
  "calc_next_check_as_per_server_side_cache example_lib
     (example_feed (Some [(''cf-cache-status'', ''HIT'')])
        (Some \<lparr>generator = None, updated = None, ttl = None\<rparr>)
        (example_response [(''Expires'', ''2030-01-01T00:00:00'')] example_clock))
     = Inl TypeError
   \<and> rfc_2822_8601_to_datetime example_lib (Some ''1 Jan 99999999999999999999 00:00:00 GMT'')
     = Inl OverflowError
   \<and> calc_next_check_as_per_server_side_cache example_lib
     (example_feed (Some [])
        (Some \<lparr>generator = Some ''RSSHub'',
               updated = Some ''Wed, 21 Oct 2015 07:28:00 GMT'',
               ttl = Some ''99999999999999999999''\<rparr>)
        (example_response [] example_clock))
     = Inl OverflowError
   \<and> calc_next_check_as_per_server_side_cache example_lib
     (example_feed None
        (Some \<lparr>generator = None, updated = None, ttl = None\<rparr>)
        (example_response [] example_clock))
     = Inl AttributeError
   \<and> proxy_filter example_lib
       \<lparr>PROXY_BYPASS_PRIVATE = False, PROXY_BYPASS_DOMAINS = [''example.com'']\<rparr>
       ''foo'' True
     = Inl AttributeError"
  by code_simp

end
